theory Spec2Isabelle
  imports Complex_Main "HOL-Library.AList"
begin

section \<open>JavaScript values and exceptions\<close>

text \<open>
  A thrown exception (or a rejected promise) is a value of \<open>js_error\<close>; a function that
  may throw returns \<open>js_error + 'a\<close>, with \<open>Inl\<close> for the exception that reaches the
  caller. Each constructor carries the message of the error object.
\<close>

datatype js_error = JsError string | JsTypeError string | JsSyntaxError string

fun message :: "js_error \<Rightarrow> string" where
  "message (JsError m) = m"
| "message (JsTypeError m) = m"
| "message (JsSyntaxError m) = m"

text \<open>
  JavaScript values. An object literal is an association list of its fields, in the order
  the source writes them. Numbers are real numbers: the model computes exactly where the
  runtime rounds to a double.
\<close>

datatype jsval =
    JUndefined
  | JNull
  | JBool bool
  | JNum real
  | JStr string
  | JArr "jsval list"
  | JObj "(string \<times> jsval) list"

text \<open>Property access \<open>v.name\<close>: a TypeError on \<open>undefined\<close> and \<open>null\<close>.\<close>

fun get_prop :: "jsval \<Rightarrow> string \<Rightarrow> js_error + jsval" where
  "get_prop JUndefined name = Inl (JsTypeError ''Cannot read properties of undefined'')"
| "get_prop JNull name = Inl (JsTypeError ''Cannot read properties of null'')"
| "get_prop (JObj fields) name =
     (case map_of fields name of None \<Rightarrow> Inr JUndefined | Some v \<Rightarrow> Inr v)"
| "get_prop v name = Inr JUndefined"

text \<open>The names of an object's own fields, in order (\<open>Object.keys\<close>).\<close>

fun keys_of :: "jsval \<Rightarrow> string list" where
  "keys_of (JObj fields) = map fst fields"
| "keys_of v = []"

section \<open>Decimal integers\<close>

definition digit_val :: "char \<Rightarrow> int option" where
  "digit_val c =
     map_of [(CHR ''0'', 0), (CHR ''1'', 1), (CHR ''2'', 2), (CHR ''3'', 3), (CHR ''4'', 4),
             (CHR ''5'', 5), (CHR ''6'', 6), (CHR ''7'', 7), (CHR ''8'', 8), (CHR ''9'', 9)] c"

fun digits_val :: "int \<Rightarrow> string \<Rightarrow> int option" where
  "digits_val acc [] = Some acc"
| "digits_val acc (c # cs) =
     (case digit_val c of None \<Rightarrow> None | Some d \<Rightarrow> digits_val (10 * acc + d) cs)"

text \<open>
  The integer a string denotes for the \<open>INCR\<close> command of Redis: \<open>0\<close>, or an optional minus
  sign and digits that do not start with \<open>0\<close>, within 64 bits signed.
\<close>

definition int_of_string :: "string \<Rightarrow> int option" where
  "int_of_string s =
     (if s = ''0'' then Some 0
      else
        (let neg = (s \<noteq> [] \<and> hd s = CHR ''-'');
             ds = (if neg then tl s else s)
         in if ds = [] \<or> hd ds = CHR ''0'' then None
            else (case digits_val 0 ds of
                    None \<Rightarrow> None
                  | Some n \<Rightarrow>
                      (let i = (if neg then - n else n)
                       in if - (2 ^ 63) \<le> i \<and> i \<le> 2 ^ 63 - 1 then Some i else None))))"

function string_of_nat :: "nat \<Rightarrow> string" where
  "string_of_nat n =
     (if n < 10 then [''0123456789'' ! n]
      else string_of_nat (n div 10) @ [''0123456789'' ! (n mod 10)])"
  by pat_completeness auto
termination
  by (relation "measure (\<lambda>n. n)") auto

declare string_of_nat.simps [simp del]

definition string_of_int :: "int \<Rightarrow> string" where
  "string_of_int i = (if i < 0 then CHR ''-'' # string_of_nat (nat (- i)) else string_of_nat (nat i))"

section \<open>The connection pool (backend/redis.js)\<close>

text \<open>
  The fields of \<open>RedisConnectionPool\<close>. \<open>client\<close> is \<open>None\<close> for \<open>null\<close>, else the state
  of the client object, of a type \<open>'c\<close> the library decides.
\<close>

record 'c RedisConnectionPool =
  client :: "'c option"
  isConnected :: bool
  connectionAttempts :: nat
  maxRetries :: nat
  retryDelay :: real
  maxRetryDelay :: real

text \<open>The constructor, which takes no argument.\<close>

definition new_RedisConnectionPool :: "unit \<Rightarrow> 'c RedisConnectionPool" where
  "new_RedisConnectionPool u =
     \<lparr> client = None, isConnected = False, connectionAttempts = 0,
       maxRetries = 5, retryDelay = 1000, maxRetryDelay = 30000 \<rparr>"

text \<open>
  \<open>getReconnectDelay(retries)\<close>, the \<open>reconnectStrategy\<close> of the socket: the client passes the
  number of retries made so far. The third argument is the value \<open>Math.random()\<close> returns
  at this call, a number of \<open>[0, 1)\<close>. The result is \<open>false\<close> or the delay in milliseconds.
\<close>

definition getReconnectDelay :: "'c RedisConnectionPool \<Rightarrow> nat \<Rightarrow> real \<Rightarrow> jsval" where
  "getReconnectDelay p retries rnd =
     (if retries \<ge> maxRetries p then JBool False
      else JNum (min (retryDelay p * 2 ^ retries + rnd * 1000) (maxRetryDelay p)))"

subsection \<open>The client library\<close>

text \<open>
  The \<open>redis\<close> package is not part of the repository. Its client object is modelled by the
  commands the pool invokes on it: each takes the state of the client (and of the server
  behind it) and returns the value the promise resolves to, or the error it rejects with,
  together with the new state. The options object of \<open>set\<close> is \<open>None\<close> for \<open>{}\<close> and
  \<open>Some t\<close> for \<open>{ EX: t }\<close>.
\<close>

record 'c redis_client =
  cmd_quit :: "'c \<Rightarrow> (js_error + unit) \<times> 'c"
  cmd_disconnect :: "'c \<Rightarrow> (js_error + unit) \<times> 'c"
  cmd_ping :: "'c \<Rightarrow> (js_error + unit) \<times> 'c"
  cmd_get :: "string \<Rightarrow> 'c \<Rightarrow> (js_error + string option) \<times> 'c"
  cmd_set :: "string \<Rightarrow> string \<Rightarrow> int option \<Rightarrow> 'c \<Rightarrow> (js_error + unit) \<times> 'c"
  cmd_del :: "string list \<Rightarrow> 'c \<Rightarrow> (js_error + int) \<times> 'c"
  cmd_exists :: "string \<Rightarrow> 'c \<Rightarrow> (js_error + int) \<times> 'c"
  cmd_expire :: "string \<Rightarrow> int \<Rightarrow> 'c \<Rightarrow> (js_error + bool) \<times> 'c"
  cmd_incr :: "string \<Rightarrow> 'c \<Rightarrow> (js_error + int) \<times> 'c"
  cmd_keys :: "string \<Rightarrow> 'c \<Rightarrow> (js_error + string list) \<times> 'c"

text \<open>
  \<open>await this.client.cmd(...)\<close>: with \<open>this.client\<close> still \<open>null\<close> the member access throws a
  TypeError; otherwise the command runs and the client's state is updated.
\<close>

definition client_call ::
  "('c \<Rightarrow> (js_error + 'a) \<times> 'c) \<Rightarrow> 'c RedisConnectionPool \<Rightarrow>
   (js_error + 'a) \<times> 'c RedisConnectionPool" where
  "client_call cmd p =
     (case client p of
        None \<Rightarrow> (Inl (JsTypeError ''Cannot read properties of null''), p)
      | Some c \<Rightarrow> (case cmd c of (r, c') \<Rightarrow> (r, p\<lparr>client := Some c'\<rparr>)))"

subsection \<open>Events of the transport\<close>

datatype client_event = Connect | Ready | ClientError js_error | End | Reconnecting

text \<open>The handlers \<open>setupEventHandlers\<close> registers, as one transition function.\<close>

fun handle_event :: "client_event \<Rightarrow> 'c RedisConnectionPool \<Rightarrow> 'c RedisConnectionPool" where
  "handle_event Connect p = p"
| "handle_event Ready p = p\<lparr>isConnected := True, connectionAttempts := 0\<rparr>"
| "handle_event (ClientError err) p = p\<lparr>isConnected := False\<rparr>"
| "handle_event End p = p\<lparr>isConnected := False\<rparr>"
| "handle_event Reconnecting p = p\<lparr>connectionAttempts := connectionAttempts p + 1\<rparr>"

subsection \<open>Shutdown\<close>

definition disconnect ::
  "'c redis_client \<Rightarrow> 'c RedisConnectionPool \<Rightarrow> (js_error + unit) \<times> 'c RedisConnectionPool" where
  "disconnect lib p =
     (if client p \<noteq> None \<and> isConnected p then
        (case client_call (cmd_quit lib) p of
           (Inr u, p') \<Rightarrow> (Inr (), p')
         | (Inl error, p') \<Rightarrow> client_call (cmd_disconnect lib) p')
      else (Inr (), p))"

subsection \<open>Wrapper methods for the primitive operations\<close>

text \<open>
  Every wrapper returns the value the caller receives, or \<open>Inl\<close> if an exception leaves the
  method, and the pool after the call. The calls to the logger are left out.
\<close>

definition get ::
  "'c redis_client \<Rightarrow> 'c RedisConnectionPool \<Rightarrow> string \<Rightarrow>
   (js_error + string option) \<times> 'c RedisConnectionPool" where
  "get lib p key =
     (if \<not> isConnected p then (Inr None, p)
      else (case client_call (cmd_get lib key) p of
              (Inr v, p') \<Rightarrow> (Inr v, p')
            | (Inl error, p') \<Rightarrow> (Inr None, p')))"

definition set' ::
  "'c redis_client \<Rightarrow> 'c RedisConnectionPool \<Rightarrow> string \<Rightarrow> string \<Rightarrow> int option \<Rightarrow>
   (js_error + bool) \<times> 'c RedisConnectionPool" where
  "set' lib p key val options =
     (if \<not> isConnected p then (Inr False, p)
      else (case client_call (cmd_set lib key val options) p of
              (Inr u, p') \<Rightarrow> (Inr True, p')
            | (Inl error, p') \<Rightarrow> (Inr False, p')))"

definition del ::
  "'c redis_client \<Rightarrow> 'c RedisConnectionPool \<Rightarrow> string \<Rightarrow>
   (js_error + jsval) \<times> 'c RedisConnectionPool" where
  "del lib p key =
     (if \<not> isConnected p then (Inr (JBool False), p)
      else (case client_call (cmd_del lib [key]) p of
              (Inr n, p') \<Rightarrow> (Inr (JNum (of_int n)), p')
            | (Inl error, p') \<Rightarrow> (Inr (JBool False), p')))"

definition exists ::
  "'c redis_client \<Rightarrow> 'c RedisConnectionPool \<Rightarrow> string \<Rightarrow>
   (js_error + jsval) \<times> 'c RedisConnectionPool" where
  "exists lib p key =
     (if \<not> isConnected p then (Inr (JBool False), p)
      else (case client_call (cmd_exists lib key) p of
              (Inr n, p') \<Rightarrow> (Inr (JNum (of_int n)), p')
            | (Inl error, p') \<Rightarrow> (Inr (JBool False), p')))"

definition expire ::
  "'c redis_client \<Rightarrow> 'c RedisConnectionPool \<Rightarrow> string \<Rightarrow> int \<Rightarrow>
   (js_error + bool) \<times> 'c RedisConnectionPool" where
  "expire lib p key seconds =
     (if \<not> isConnected p then (Inr False, p)
      else (case client_call (cmd_expire lib key seconds) p of
              (Inr b, p') \<Rightarrow> (Inr b, p')
            | (Inl error, p') \<Rightarrow> (Inr False, p')))"

subsection \<open>Sessions and the response cache\<close>

text \<open>
  \<open>JSON.parse\<close> and \<open>JSON.stringify\<close> belong to the language runtime, not to the repository:
  they are parameters of the model. \<open>JSON.parse\<close> throws a SyntaxError on text that is not
  JSON; \<open>JSON.stringify\<close> throws a TypeError on a cyclic structure.
\<close>

record js_runtime =
  JSON_parse :: "string \<Rightarrow> js_error + jsval"
  JSON_stringify :: "jsval \<Rightarrow> js_error + string"

text \<open>
  In the test \<open>data ? JSON.parse(data) : null\<close> the value is \<open>null\<close> or a string, and the
  empty string is falsy.
\<close>

definition getSession ::
  "js_runtime \<Rightarrow> 'c redis_client \<Rightarrow> 'c RedisConnectionPool \<Rightarrow> string \<Rightarrow>
   (js_error + jsval) \<times> 'c RedisConnectionPool" where
  "getSession rt lib p sessionId =
     (case get lib p (''session:'' @ sessionId) of
        (Inl e, p') \<Rightarrow> (Inl e, p')
      | (Inr None, p') \<Rightarrow> (Inr JNull, p')
      | (Inr (Some sessionData), p') \<Rightarrow>
          (if sessionData \<noteq> [] then (JSON_parse rt sessionData, p') else (Inr JNull, p')))"

text \<open>The optional parameter \<open>ttlSeconds\<close> is \<open>None\<close> when the caller omits it.\<close>

definition setSession ::
  "js_runtime \<Rightarrow> 'c redis_client \<Rightarrow> 'c RedisConnectionPool \<Rightarrow> string \<Rightarrow> jsval \<Rightarrow> int option \<Rightarrow>
   (js_error + bool) \<times> 'c RedisConnectionPool" where
  "setSession rt lib p sessionId sessionData ttlSeconds =
     (case JSON_stringify rt sessionData of
        Inl e \<Rightarrow> (Inl e, p)
      | Inr serialized \<Rightarrow>
          set' lib p (''session:'' @ sessionId) serialized
            (Some (case ttlSeconds of None \<Rightarrow> 3600 | Some t \<Rightarrow> t)))"

definition deleteSession ::
  "'c redis_client \<Rightarrow> 'c RedisConnectionPool \<Rightarrow> string \<Rightarrow>
   (js_error + jsval) \<times> 'c RedisConnectionPool" where
  "deleteSession lib p sessionId = del lib p (''session:'' @ sessionId)"

definition getCachedData ::
  "js_runtime \<Rightarrow> 'c redis_client \<Rightarrow> 'c RedisConnectionPool \<Rightarrow> string \<Rightarrow>
   (js_error + jsval) \<times> 'c RedisConnectionPool" where
  "getCachedData rt lib p key =
     (case get lib p (''cache:'' @ key) of
        (Inl e, p') \<Rightarrow> (Inl e, p')
      | (Inr None, p') \<Rightarrow> (Inr JNull, p')
      | (Inr (Some cachedData), p') \<Rightarrow>
          (if cachedData \<noteq> [] then (JSON_parse rt cachedData, p') else (Inr JNull, p')))"

definition setCachedData ::
  "js_runtime \<Rightarrow> 'c redis_client \<Rightarrow> 'c RedisConnectionPool \<Rightarrow> string \<Rightarrow> jsval \<Rightarrow> int option \<Rightarrow>
   (js_error + bool) \<times> 'c RedisConnectionPool" where
  "setCachedData rt lib p key data ttlSeconds =
     (case JSON_stringify rt data of
        Inl e \<Rightarrow> (Inl e, p)
      | Inr serialized \<Rightarrow>
          set' lib p (''cache:'' @ key) serialized
            (Some (case ttlSeconds of None \<Rightarrow> 300 | Some t \<Rightarrow> t)))"

definition invalidateCache ::
  "'c redis_client \<Rightarrow> 'c RedisConnectionPool \<Rightarrow> string \<Rightarrow>
   (js_error + bool) \<times> 'c RedisConnectionPool" where
  "invalidateCache lib p pattern =
     (if \<not> isConnected p then (Inr False, p)
      else (case client_call (cmd_keys lib (''cache:'' @ pattern)) p of
              (Inl error, p') \<Rightarrow> (Inr False, p')
            | (Inr keys, p') \<Rightarrow>
                (if length keys > 0 then
                   (case client_call (cmd_del lib keys) p' of
                      (Inl error, p'') \<Rightarrow> (Inr False, p'')
                    | (Inr n, p'') \<Rightarrow> (Inr True, p''))
                 else (Inr True, p'))))"

subsection \<open>Rate limiting\<close>

text \<open>
  The object \<open>checkRateLimit\<close> returns; \<open>current\<close> is absent on the two fail-open paths.
  The local constant \<open>current\<close> of the source is \<open>count\<close> below.
\<close>

record rate_limit_result =
  allowed :: bool
  remaining :: int
  current :: "int option"

definition checkRateLimit ::
  "'c redis_client \<Rightarrow> 'c RedisConnectionPool \<Rightarrow> string \<Rightarrow> int \<Rightarrow> int \<Rightarrow>
   (js_error + rate_limit_result) \<times> 'c RedisConnectionPool" where
  "checkRateLimit lib p identifier limit windowSeconds =
     (if \<not> isConnected p then
        (Inr \<lparr>allowed = True, remaining = limit, current = None\<rparr>, p)
      else
        (let key = ''rate_limit:'' @ identifier in
         case client_call (cmd_incr lib key) p of
           (Inl error, p') \<Rightarrow> (Inr \<lparr>allowed = True, remaining = limit, current = None\<rparr>, p')
         | (Inr count, p') \<Rightarrow>
             (case (if count = 1 then client_call (cmd_expire lib key windowSeconds) p'
                    else (Inr True, p')) of
                (Inl error, p'') \<Rightarrow>
                  (Inr \<lparr>allowed = True, remaining = limit, current = None\<rparr>, p'')
              | (Inr b, p'') \<Rightarrow>
                  (Inr \<lparr>allowed = (count \<le> limit), remaining = max 0 (limit - count),
                        current = Some count\<rparr>, p''))))"

subsection \<open>Health check of the pool\<close>

text \<open>
  \<open>healthCheck()\<close>. \<open>responseTime\<close> is the difference of the two readings of \<open>Date.now()\<close>
  around the ping. \<open>string_of_int\<close> prints it in the template string.
\<close>

definition healthCheck ::
  "'c redis_client \<Rightarrow> 'c RedisConnectionPool \<Rightarrow> int \<Rightarrow>
   (js_error + jsval) \<times> 'c RedisConnectionPool" where
  "healthCheck lib p responseTime =
     (if client p = None \<or> \<not> isConnected p then
        (Inr (JObj [(''status'', JStr ''unhealthy''),
                    (''message'', JStr ''Redis client not connected'')]), p)
      else
        (case client_call (cmd_ping lib) p of
           (Inr u, p') \<Rightarrow>
             (Inr (JObj [(''status'', JStr ''healthy''),
                         (''responseTime'', JStr (string_of_int responseTime @ ''ms'')),
                         (''message'', JStr ''Redis connection is healthy'')]), p')
         | (Inl error, p') \<Rightarrow>
             (Inr (JObj [(''status'', JStr ''unhealthy''),
                         (''message'', JStr (''Redis health check failed: '' @ message error))]),
              p')))"

section \<open>An in-memory Redis behind the client\<close>

text \<open>
  One instance of the library's interface: a keyspace of strings with expiry times, a
  clock in seconds, the socket, and a schedule of transient faults. It follows the Redis
  commands the pool issues and gives the theorems on stored keys and the concrete runs
  something to execute; the theorems on error handling hold for every client.
\<close>

subsection \<open>Key patterns of \<open>KEYS\<close>\<close>

datatype glob_token = Star | AnyChar | Lit char | CharClass bool "(char \<times> char) list"

fun glob_tokens :: "string \<Rightarrow> glob_token list"
  and class_tokens :: "bool \<Rightarrow> (char \<times> char) list \<Rightarrow> string \<Rightarrow> glob_token list" where
  "glob_tokens [] = []"
| "glob_tokens (c # p) =
     (if c = CHR ''*'' then Star # glob_tokens p
      else if c = CHR ''?'' then AnyChar # glob_tokens p
      else if c = CHR 0x5C then
        (case p of [] \<Rightarrow> [Lit c] | e # p' \<Rightarrow> Lit e # glob_tokens p')
      else if c = CHR ''['' then
        (case p of
           [] \<Rightarrow> class_tokens False [] p
         | n # p' \<Rightarrow> if n = CHR ''^'' then class_tokens True [] p' else class_tokens False [] p)
      else Lit c # glob_tokens p)"
| "class_tokens neg acc [] = [CharClass neg acc]"
| "class_tokens neg acc (c # p) =
     (if c = CHR 0x5C \<and> p \<noteq> [] then
        (case p of [] \<Rightarrow> [CharClass neg acc] | e # p' \<Rightarrow> class_tokens neg (acc @ [(e, e)]) p')
      else if c = CHR '']'' then CharClass neg acc # glob_tokens p
      else
        (case p of
           d # e # p' \<Rightarrow>
             if d = CHR ''-'' then class_tokens neg (acc @ [(c, e)]) p'
             else class_tokens neg (acc @ [(c, c)]) p
         | _ \<Rightarrow> class_tokens neg (acc @ [(c, c)]) p))"

definition in_range :: "char \<Rightarrow> char \<times> char \<Rightarrow> bool" where
  "in_range x r =
     (let a = (of_char (fst r) :: nat); b = (of_char (snd r) :: nat); n = (of_char x :: nat)
      in (a \<le> n \<and> n \<le> b) \<or> (b \<le> n \<and> n \<le> a))"

fun glob_match :: "glob_token list \<Rightarrow> string \<Rightarrow> bool" where
  "glob_match [] s = (s = [])"
| "glob_match (Star # ts) [] = glob_match ts []"
| "glob_match (Star # ts) (x # s) = (glob_match ts (x # s) \<or> glob_match (Star # ts) s)"
| "glob_match (t # ts) [] = False"
| "glob_match (AnyChar # ts) (x # s) = glob_match ts s"
| "glob_match (Lit c # ts) (x # s) = (c = x \<and> glob_match ts s)"
| "glob_match (CharClass neg rs # ts) (x # s) =
     ((list_ex (in_range x) rs \<noteq> neg) \<and> glob_match ts s)"

subsection \<open>The server and the socket\<close>

record redis_entry =
  val :: string
  expire_at :: "int option"

record redis_sim =
  socket_open :: bool
  db :: "(string \<times> redis_entry) list"
  clock :: int
  faults :: "bool list"

text \<open>
  A command on a closed socket is rejected. Otherwise the next element of the fault
  schedule decides: \<open>True\<close> rejects the command and leaves the keyspace alone.
\<close>

definition sim_command ::
  "(redis_sim \<Rightarrow> (js_error + 'a) \<times> redis_sim) \<Rightarrow> redis_sim \<Rightarrow> (js_error + 'a) \<times> redis_sim" where
  "sim_command run c =
     (if \<not> socket_open c then (Inl (JsError ''The client is closed''), c)
      else (case faults c of
              [] \<Rightarrow> run c
            | f # fs \<Rightarrow>
                if f then (Inl (JsError ''Connection lost''), c\<lparr>faults := fs\<rparr>)
                else run (c\<lparr>faults := fs\<rparr>)))"

text \<open>A key is there when it is stored and its expiry time, if any, is still ahead.\<close>

definition live :: "redis_sim \<Rightarrow> string \<Rightarrow> redis_entry option" where
  "live c k =
     (case map_of (db c) k of
        None \<Rightarrow> None
      | Some e \<Rightarrow>
          (case expire_at e of
             None \<Rightarrow> Some e
           | Some t \<Rightarrow> if clock c < t then Some e else None))"

text \<open>The remaining time to live of a key, in seconds, when it has one.\<close>

definition ttl :: "redis_sim \<Rightarrow> string \<Rightarrow> int option" where
  "ttl c k =
     (case live c k of
        None \<Rightarrow> None
      | Some e \<Rightarrow> map_option (\<lambda>t. t - clock c) (expire_at e))"

text \<open>
  What the store holds for a counter: the number \<open>INCR\<close> starts from (\<open>0\<close> for a key that
  is not there, nothing for a value that is no integer), and the expiry time of a key.
\<close>

definition counter :: "redis_sim \<Rightarrow> string \<Rightarrow> int option" where
  "counter c k = (case live c k of None \<Rightarrow> Some 0 | Some e \<Rightarrow> int_of_string (val e))"

definition expiry :: "redis_sim \<Rightarrow> string \<Rightarrow> int option" where
  "expiry c k = (case live c k of None \<Rightarrow> None | Some e \<Rightarrow> expire_at e)"

definition sim_get :: "string \<Rightarrow> redis_sim \<Rightarrow> (js_error + string option) \<times> redis_sim" where
  "sim_get k = sim_command (\<lambda>c. (Inr (map_option val (live c k)), c))"

definition sim_set ::
  "string \<Rightarrow> string \<Rightarrow> int option \<Rightarrow> redis_sim \<Rightarrow> (js_error + unit) \<times> redis_sim" where
  "sim_set k v ex =
     sim_command (\<lambda>c.
       (case ex of
          None \<Rightarrow> (Inr (), c\<lparr>db := AList.update k \<lparr>val = v, expire_at = None\<rparr> (db c)\<rparr>)
        | Some t \<Rightarrow>
            if t \<le> 0 then (Inl (JsError ''ERR invalid expire time in set command''), c)
            else (Inr (), c\<lparr>db := AList.update k \<lparr>val = v, expire_at = Some (clock c + t)\<rparr> (db c)\<rparr>)))"

fun del_keys :: "string list \<Rightarrow> redis_sim \<Rightarrow> int \<times> redis_sim" where
  "del_keys [] c = (0, c)"
| "del_keys (k # ks) c =
     (let n = (if live c k = None then 0 else 1);
          (m, c') = del_keys ks (c\<lparr>db := AList.delete k (db c)\<rparr>)
      in (n + m, c'))"

definition sim_del :: "string list \<Rightarrow> redis_sim \<Rightarrow> (js_error + int) \<times> redis_sim" where
  "sim_del ks = sim_command (\<lambda>c. case del_keys ks c of (n, c') \<Rightarrow> (Inr n, c'))"

definition sim_exists :: "string \<Rightarrow> redis_sim \<Rightarrow> (js_error + int) \<times> redis_sim" where
  "sim_exists k = sim_command (\<lambda>c. (Inr (if live c k = None then 0 else 1), c))"

text \<open>
  \<open>EXPIRE\<close> with a time that is not positive deletes the key: here the entry gets an expiry
  time that is not ahead of the clock, so no command sees it any more.
\<close>

definition sim_expire :: "string \<Rightarrow> int \<Rightarrow> redis_sim \<Rightarrow> (js_error + bool) \<times> redis_sim" where
  "sim_expire k t =
     sim_command (\<lambda>c.
       (case live c k of
          None \<Rightarrow> (Inr False, c)
        | Some e \<Rightarrow> (Inr True, c\<lparr>db := AList.update k (e\<lparr>expire_at := Some (clock c + t)\<rparr>) (db c)\<rparr>)))"

definition sim_incr :: "string \<Rightarrow> redis_sim \<Rightarrow> (js_error + int) \<times> redis_sim" where
  "sim_incr k =
     sim_command (\<lambda>c.
       (case live c k of
          None \<Rightarrow> (Inr 1, c\<lparr>db := AList.update k \<lparr>val = ''1'', expire_at = None\<rparr> (db c)\<rparr>)
        | Some e \<Rightarrow>
            (case int_of_string (val e) of
               None \<Rightarrow> (Inl (JsError ''ERR value is not an integer or out of range''), c)
             | Some n \<Rightarrow>
                 if n + 1 > 2 ^ 63 - 1
                 then (Inl (JsError ''ERR increment or decrement would overflow''), c)
                 else (Inr (n + 1),
                       c\<lparr>db := AList.update k (e\<lparr>val := string_of_int (n + 1)\<rparr>) (db c)\<rparr>))))"

definition sim_keys :: "string \<Rightarrow> redis_sim \<Rightarrow> (js_error + string list) \<times> redis_sim" where
  "sim_keys pattern =
     sim_command (\<lambda>c.
       (Inr (filter (\<lambda>k. live c k \<noteq> None \<and> glob_match (glob_tokens pattern) k)
               (remdups (map fst (db c)))), c))"

definition sim_ping :: "redis_sim \<Rightarrow> (js_error + unit) \<times> redis_sim" where
  "sim_ping = sim_command (\<lambda>c. (Inr (), c))"

text \<open>\<open>quit\<close> and \<open>disconnect\<close> close the socket when they succeed.\<close>

definition sim_quit :: "redis_sim \<Rightarrow> (js_error + unit) \<times> redis_sim" where
  "sim_quit = sim_command (\<lambda>c. (Inr (), c\<lparr>socket_open := False\<rparr>))"

definition sim_disconnect :: "redis_sim \<Rightarrow> (js_error + unit) \<times> redis_sim" where
  "sim_disconnect = sim_command (\<lambda>c. (Inr (), c\<lparr>socket_open := False\<rparr>))"

definition sim_lib :: "redis_sim redis_client" where
  "sim_lib =
     \<lparr> cmd_quit = sim_quit, cmd_disconnect = sim_disconnect, cmd_ping = sim_ping,
       cmd_get = sim_get, cmd_set = sim_set, cmd_del = sim_del, cmd_exists = sim_exists,
       cmd_expire = sim_expire, cmd_incr = sim_incr, cmd_keys = sim_keys \<rparr>"

text \<open>Time passing between two calls: the server's clock advances by \<open>n\<close> seconds.\<close>

definition elapse :: "int \<Rightarrow> redis_sim RedisConnectionPool \<Rightarrow> redis_sim RedisConnectionPool" where
  "elapse n p = p\<lparr>client := map_option (\<lambda>c. c\<lparr>clock := clock c + n\<rparr>) (client p)\<rparr>"

section \<open>A JSON runtime for the integer fragment\<close>

text \<open>
  One instance of \<open>js_runtime\<close>, for running the services on concrete data. It reads and
  writes \<open>null\<close>, the booleans, integers, strings with the short escapes, arrays and
  objects. A number with a fraction or an exponent, a Unicode escape and a control character
  to print are outside this instance: it answers them with an error.
\<close>

definition is_ws :: "char \<Rightarrow> bool" where
  "is_ws c = (c = CHR '' '' \<or> c = CHR 0x09 \<or> c = CHR 0x0A \<or> c = CHR 0x0D)"

definition skip_ws :: "string \<Rightarrow> string" where
  "skip_ws s = dropWhile is_ws s"

definition escapes :: "(char \<times> char) list" where
  "escapes =
     [(CHR 0x22, CHR 0x22), (CHR 0x5C, CHR 0x5C), (CHR ''/'', CHR ''/''), (CHR ''b'', CHR 0x08),
      (CHR ''f'', CHR 0x0C), (CHR ''n'', CHR 0x0A), (CHR ''r'', CHR 0x0D), (CHR ''t'', CHR 0x09)]"

fun parse_string :: "string \<Rightarrow> string \<Rightarrow> (string \<times> string) option" where
  "parse_string acc [] = None"
| "parse_string acc (c # cs) =
     (if c = CHR 0x22 then Some (acc, cs)
      else if c = CHR 0x5C then
        (case cs of
           [] \<Rightarrow> None
         | e # cs' \<Rightarrow>
             (case map_of escapes e of
                None \<Rightarrow> None
              | Some x \<Rightarrow> parse_string (acc @ [x]) cs'))
      else if (of_char c :: nat) < 32 then None
      else parse_string (acc @ [c]) cs)"

definition parse_number :: "string \<Rightarrow> (jsval \<times> string) option" where
  "parse_number s =
     (let neg = (s \<noteq> [] \<and> hd s = CHR ''-'');
          body = (if neg then tl s else s);
          ds = (if body \<noteq> [] \<and> hd body = CHR ''0'' then ''0''
                else takeWhile (\<lambda>c. digit_val c \<noteq> None) body);
          rest = drop (length ds) body
      in if ds = [] \<or> (rest \<noteq> [] \<and> hd rest \<in> set ''.eE'') then None
         else (case digits_val 0 ds of
                 None \<Rightarrow> None
               | Some n \<Rightarrow> Some (JNum (if neg then - of_int n else of_int n), rest)))"

text \<open>After optional white space, the next character and the rest.\<close>

definition next_char :: "string \<Rightarrow> (char \<times> string) option" where
  "next_char s = (case skip_ws s of [] \<Rightarrow> None | c # cs \<Rightarrow> Some (c, cs))"

text \<open>After optional white space, the rest behind the character \<open>c\<close>, if it comes next.\<close>

definition closes :: "char \<Rightarrow> string \<Rightarrow> string option" where
  "closes c s =
     (case next_char s of None \<Rightarrow> None | Some (d, r) \<Rightarrow> if d = c then Some r else None)"

definition parse_key :: "string \<Rightarrow> (string \<times> string) option" where
  "parse_key s =
     (case next_char s of
        None \<Rightarrow> None
      | Some (q, s') \<Rightarrow>
          if q \<noteq> CHR 0x22 then None
          else (case parse_string [] s' of
                  None \<Rightarrow> None
                | Some (k, r) \<Rightarrow>
                    (case next_char r of
                       None \<Rightarrow> None
                     | Some (colon, r') \<Rightarrow> if colon = CHR '':'' then Some (k, r') else None)))"

definition parse_literal :: "char \<Rightarrow> string \<Rightarrow> (jsval \<times> string) option" where
  "parse_literal c cs =
     (if c = CHR ''n'' then (if take 3 cs = ''ull'' then Some (JNull, drop 3 cs) else None)
      else if c = CHR ''t'' then (if take 3 cs = ''rue'' then Some (JBool True, drop 3 cs) else None)
      else if c = CHR ''f'' then (if take 4 cs = ''alse'' then Some (JBool False, drop 4 cs) else None)
      else if c = CHR 0x22 then
        (case parse_string [] cs of None \<Rightarrow> None | Some (str, r) \<Rightarrow> Some (JStr str, r))
      else parse_number (c # cs))"

datatype parse_mode = Value | Elements "jsval list" | Members "(string \<times> jsval) list"

fun parse_json :: "nat \<Rightarrow> parse_mode \<Rightarrow> string \<Rightarrow> (jsval \<times> string) option" where
  "parse_json 0 mode s = None"
| "parse_json (Suc n) Value s =
     (case next_char s of
        None \<Rightarrow> None
      | Some (c, cs) \<Rightarrow>
          if c = CHR ''['' then
            (case closes (CHR '']'') cs of
               Some r \<Rightarrow> Some (JArr [], r)
             | None \<Rightarrow> parse_json n (Elements []) cs)
          else if c = CHR ''{'' then
            (case closes (CHR ''}'') cs of
               Some r \<Rightarrow> Some (JObj [], r)
             | None \<Rightarrow> parse_json n (Members []) cs)
          else parse_literal c cs)"
| "parse_json (Suc n) (Elements acc) s =
     (case parse_json n Value s of
        None \<Rightarrow> None
      | Some (v, r) \<Rightarrow>
          (case next_char r of
             None \<Rightarrow> None
           | Some (d, r') \<Rightarrow>
               if d = CHR '','' then parse_json n (Elements (acc @ [v])) r'
               else if d = CHR '']'' then Some (JArr (acc @ [v]), r')
               else None))"
| "parse_json (Suc n) (Members acc) s =
     (case parse_key s of
        None \<Rightarrow> None
      | Some (k, r) \<Rightarrow>
          (case parse_json n Value r of
             None \<Rightarrow> None
           | Some (v, r') \<Rightarrow>
               (case next_char r' of
                  None \<Rightarrow> None
                | Some (d, r'') \<Rightarrow>
                    if d = CHR '','' then parse_json n (Members (AList.update k v acc)) r''
                    else if d = CHR ''}'' then Some (JObj (AList.update k v acc), r'')
                    else None)))"

definition json_parse :: "string \<Rightarrow> js_error + jsval" where
  "json_parse s =
     (case parse_json (Suc (length s)) Value s of
        None \<Rightarrow> Inl (JsSyntaxError ''Unexpected token in JSON'')
      | Some (v, r) \<Rightarrow>
          if skip_ws r = [] then Inr v else Inl (JsSyntaxError ''Unexpected token in JSON''))"

definition escape_char :: "char \<Rightarrow> string option" where
  "escape_char c =
     (case map_of (map (\<lambda>(e, x). (x, e)) (filter (\<lambda>(e, x). e \<noteq> CHR ''/'') escapes)) c of
        Some e \<Rightarrow> Some [CHR 0x5C, e]
      | None \<Rightarrow> if (of_char c :: nat) < 32 then None else Some [c])"

fun quote_chars :: "string \<Rightarrow> string option" where
  "quote_chars [] = Some []"
| "quote_chars (c # cs) =
     (case escape_char c of
        None \<Rightarrow> None
      | Some e \<Rightarrow> (case quote_chars cs of None \<Rightarrow> None | Some r \<Rightarrow> Some (e @ r)))"

definition quote :: "string \<Rightarrow> string option" where
  "quote s = map_option (\<lambda>r. [CHR 0x22] @ r @ [CHR 0x22]) (quote_chars s)"

fun join :: "string option list \<Rightarrow> string option" where
  "join [] = Some []"
| "join [x] = x"
| "join (x # xs) =
     (case x of None \<Rightarrow> None
      | Some a \<Rightarrow> (case join xs of None \<Rightarrow> None | Some b \<Rightarrow> Some (a @ '','' @ b)))"

primrec stringify :: "jsval \<Rightarrow> string option" where
  "stringify JUndefined = None"
| "stringify JNull = Some ''null''"
| "stringify (JBool b) = Some (if b then ''true'' else ''false'')"
| "stringify (JNum r) = (if r = real_of_int \<lfloor>r\<rfloor> then Some (string_of_int \<lfloor>r\<rfloor>) else None)"
| "stringify (JStr s) = quote s"
| "stringify (JArr xs) = map_option (\<lambda>r. ''['' @ r @ '']'') (join (map stringify xs))"
| "stringify (JObj fs) =
     map_option (\<lambda>r. ''{'' @ r @ ''}'')
       (join (map (\<lambda>(k, v). case (quote k, v) of
                          (Some q, Some t) \<Rightarrow> Some (q @ '':'' @ t)
                        | _ \<Rightarrow> None)
               (map (map_prod (\<lambda>k. k) stringify) fs)))"

definition json_stringify :: "jsval \<Rightarrow> js_error + string" where
  "json_stringify v =
     (case stringify v of
        None \<Rightarrow> Inl (JsTypeError ''value outside the modelled fragment'')
      | Some s \<Rightarrow> Inr s)"

definition json_rt :: js_runtime where
  "json_rt = \<lparr> JSON_parse = json_parse, JSON_stringify = json_stringify \<rparr>"

section \<open>The health checker\<close>

text \<open>
  The connection pool of the relational store, as the health checker uses it: the outcome
  of a query (the rows, or the error the promise rejects with) and the three counters. The
  constructor stores whatever it is given, so the field \<open>pool\<close> of the checker may be
  \<open>null\<close>: that is \<open>None\<close>. An error a promise rejects with is an Error object with a
  message, as the \<open>pg\<close> and \<open>redis\<close> packages produce them.
\<close>

record pg_pool =
  query :: "string \<Rightarrow> js_error + jsval list"
  totalCount :: int
  idleCount :: int
  waitingCount :: int

record 'c HealthChecker =
  pool :: "pg_pool option"
  redisPool :: "'c RedisConnectionPool option"
  startTime :: int
  isShuttingDown :: bool

text \<open>
  What one health check reads from the process and the clock: \<open>Date.now()\<close> at the start,
  the milliseconds each awaited step takes, the timestamp string, \<open>process.memoryUsage()\<close>
  in bytes, and the environment variables (\<open>memoryLimit\<close> is the value of
  \<open>parseInt(process.env.MEMORY_LIMIT_MB)\<close>, \<open>None\<close> for \<open>NaN\<close>).
\<close>

record health_env =
  now :: int
  db_elapsed :: int
  redis_elapsed :: int
  total_elapsed :: int
  isoString :: string
  rss :: int
  heapTotal :: int
  heapUsed :: int
  external :: int
  arrayBuffers :: int
  memoryLimit :: "int option"
  npm_package_version :: "string option"
  NODE_ENV :: "string option"

definition setShuttingDown :: "bool \<Rightarrow> 'c HealthChecker \<Rightarrow> 'c HealthChecker" where
  "setShuttingDown status hc = hc\<lparr>isShuttingDown := status\<rparr>"

text \<open>\<open>a || b\<close> on an environment variable: unset and empty are both falsy.\<close>

definition env_or :: "string option \<Rightarrow> string \<Rightarrow> string" where
  "env_or v d = (case v of None \<Rightarrow> d | Some s \<Rightarrow> if s = [] then d else s)"

text \<open>
  \<open>this.pool.query(sql)\<close> and the reads of \<open>this.pool.totalCount\<close>, \<open>idleCount\<close> and
  \<open>waitingCount\<close>: a TypeError when \<open>this.pool\<close> is \<open>null\<close> (the message is shortened).
\<close>

definition pool_query :: "pg_pool option \<Rightarrow> string \<Rightarrow> js_error + jsval list" where
  "pool_query pgo sql =
     (case pgo of
        None \<Rightarrow> Inl (JsTypeError ''Cannot read properties of null'')
      | Some pg \<Rightarrow> query pg sql)"

definition pool_details :: "pg_pool option \<Rightarrow> js_error + (string \<times> jsval) list" where
  "pool_details pgo =
     (case pgo of
        None \<Rightarrow> Inl (JsTypeError ''Cannot read properties of null'')
      | Some pg \<Rightarrow>
          Inr [(''totalConnections'', JNum (of_int (totalCount pg))),
               (''idleConnections'', JNum (of_int (idleCount pg))),
               (''waitingClients'', JNum (of_int (waitingCount pg)))])"

text \<open>
  \<open>checkDatabase()\<close>. The \<open>catch\<close> block builds its object from \<open>this.pool\<close> again, so with
  the pool \<open>null\<close> it throws in its turn, and that error leaves the method.
\<close>

definition checkDatabase :: "pg_pool option \<Rightarrow> int \<Rightarrow> js_error + jsval" where
  "checkDatabase pgo responseTime =
     (case (case pool_query pgo ''SELECT 1 as health_check, NOW() as timestamp'' of
              Inl e \<Rightarrow> Inl e
            | Inr rows \<Rightarrow>
                (case get_prop (case rows of [] \<Rightarrow> JUndefined | r # rs \<Rightarrow> r) ''timestamp'' of
                   Inl e \<Rightarrow> Inl e
                 | Inr timestamp \<Rightarrow>
                     (case pool_details pgo of
                        Inl e \<Rightarrow> Inl e
                      | Inr counters \<Rightarrow>
                          Inr (JObj [(''status'', JStr ''healthy''),
                                     (''responseTime'', JNum (of_int responseTime)),
                                     (''details'',
                                      JObj ([(''query'', JStr ''SELECT 1''),
                                             (''timestamp'', timestamp)] @ counters))])))) of
        Inr health \<Rightarrow> Inr health
      | Inl error \<Rightarrow>
          (case pool_details pgo of
             Inl e \<Rightarrow> Inl e
           | Inr counters \<Rightarrow>
               Inr (JObj [(''status'', JStr ''unhealthy''),
                          (''responseTime'', JNum (of_int responseTime)),
                          (''error'', JStr (message error)),
                          (''details'', JObj counters)])))"

definition checkRedis ::
  "'c redis_client \<Rightarrow> 'c HealthChecker \<Rightarrow> int \<Rightarrow> (js_error + jsval) \<times> 'c HealthChecker" where
  "checkRedis lib hc responseTime =
     (case redisPool hc of
        None \<Rightarrow>
          (Inr (JObj [(''status'', JStr ''not_configured''),
                      (''message'', JStr ''Redis connection pool not configured'')]), hc)
      | Some p \<Rightarrow>
          (case healthCheck lib p responseTime of (r, p') \<Rightarrow> (r, hc\<lparr>redisPool := Some p'\<rparr>)))"

text \<open>\<open>Math.round(bytes / 1024 / 1024)\<close>.\<close>

definition megabytes :: "int \<Rightarrow> jsval" where
  "megabytes bytes = JNum (of_int (round (real_of_int bytes / 1024 / 1024)))"

definition checkMemory :: "health_env \<Rightarrow> js_error + jsval" where
  "checkMemory env =
     (let totalMemory = rss env + heapUsed env + external env;
          memoryLimitMB = (case memoryLimit env of None \<Rightarrow> 512 | Some n \<Rightarrow> if n = 0 then 512 else n);
          memoryUsagePercent =
            (real_of_int totalMemory / real_of_int (memoryLimitMB * 1024 * 1024)) * 100
      in Inr (JObj [(''status'', JStr (if memoryUsagePercent > 90 then ''unhealthy'' else ''healthy'')),
                    (''details'',
                     JObj [(''rss'', megabytes (rss env)),
                           (''heapTotal'', megabytes (heapTotal env)),
                           (''heapUsed'', megabytes (heapUsed env)),
                           (''external'', megabytes (external env)),
                           (''arrayBuffers'', megabytes (arrayBuffers env)),
                           (''totalMB'', megabytes totalMemory),
                           (''limitMB'', JNum (of_int memoryLimitMB)),
                           (''usagePercent'',
                            JNum (real_of_int (round (memoryUsagePercent * 100)) / 100))])]))"

text \<open>The remainder \<open>a % b\<close> of JavaScript takes the sign of \<open>a\<close>.\<close>

definition js_rem :: "int \<Rightarrow> int \<Rightarrow> int" where
  "js_rem a b = sgn a * (\<bar>a\<bar> mod \<bar>b\<bar>)"

definition getUptime :: "'c HealthChecker \<Rightarrow> int \<Rightarrow> jsval" where
  "getUptime hc date_now =
     (let uptimeMs = date_now - startTime hc;
          uptimeSeconds = uptimeMs div 1000;
          uptimeMinutes = uptimeSeconds div 60;
          uptimeHours = uptimeMinutes div 60
      in JObj [(''milliseconds'', JNum (of_int uptimeMs)),
               (''seconds'', JNum (of_int uptimeSeconds)),
               (''minutes'', JNum (of_int uptimeMinutes)),
               (''hours'', JNum (of_int uptimeHours)),
               (''formatted'',
                JStr (string_of_int uptimeHours @ ''h '' @ string_of_int (js_rem uptimeMinutes 60)
                      @ ''m '' @ string_of_int (js_rem uptimeSeconds 60) @ ''s''))])"

definition determineOverallStatus :: "jsval list \<Rightarrow> jsval" where
  "determineOverallStatus statuses =
     (if JStr ''unhealthy'' \<in> set statuses then JStr ''unhealthy''
      else if list_all (\<lambda>status. status = JStr ''healthy'') statuses then JStr ''healthy''
      else JStr ''degraded'')"

text \<open>
  The reduction inside \<open>performHealthCheck\<close>: the \<open>status\<close> fields of the three probe
  results, the cache's \<open>not_configured\<close> replaced by \<open>healthy\<close>, passed to
  \<open>determineOverallStatus\<close>.
\<close>

definition overallStatus :: "jsval \<Rightarrow> jsval \<Rightarrow> jsval \<Rightarrow> js_error + jsval" where
  "overallStatus dbHealth redisHealth memoryHealth =
     (case get_prop dbHealth ''status'' of
        Inl e \<Rightarrow> Inl e
      | Inr dbStatus \<Rightarrow>
          (case get_prop redisHealth ''status'' of
             Inl e \<Rightarrow> Inl e
           | Inr redisStatus \<Rightarrow>
               (case get_prop memoryHealth ''status'' of
                  Inl e \<Rightarrow> Inl e
                | Inr memoryStatus \<Rightarrow>
                    Inr (determineOverallStatus
                          [dbStatus,
                           if redisStatus = JStr ''not_configured'' then JStr ''healthy''
                           else redisStatus,
                           memoryStatus]))))"

text \<open>
  The body of the \<open>try\<close> block of \<open>performHealthCheck\<close>. \<open>Promise.all\<close> starts the three
  probes before it waits, so all three have run when one of them rejects; the probes share
  no state, and the order the model runs them in is the order of the array. The object
  that is returned reads the clock once more than the model does: \<open>uptime\<close> and
  \<open>responseTime\<close> use the same reading here.
\<close>

definition performHealthCheck_try ::
  "'c redis_client \<Rightarrow> 'c HealthChecker \<Rightarrow> health_env \<Rightarrow> (js_error + jsval) \<times> 'c HealthChecker" where
  "performHealthCheck_try lib hc env =
     (case (checkDatabase (pool hc) (db_elapsed env),
            checkRedis lib hc (redis_elapsed env),
            checkMemory env) of
        (Inl e, (r, hc'), m) \<Rightarrow> (Inl e, hc')
      | (Inr dbHealth, (Inl e, hc'), m) \<Rightarrow> (Inl e, hc')
      | (Inr dbHealth, (Inr redisHealth, hc'), Inl e) \<Rightarrow> (Inl e, hc')
      | (Inr dbHealth, (Inr redisHealth, hc'), Inr memoryHealth) \<Rightarrow>
          (case overallStatus dbHealth redisHealth memoryHealth of
             Inl e \<Rightarrow> (Inl e, hc')
           | Inr status \<Rightarrow>
               (Inr (JObj [(''status'', status),
                           (''timestamp'', JStr (isoString env)),
                           (''uptime'', getUptime hc' (now env + total_elapsed env)),
                           (''responseTime'', JNum (of_int (total_elapsed env))),
                           (''version'', JStr (env_or (npm_package_version env) ''1.0.0'')),
                           (''environment'', JStr (env_or (NODE_ENV env) ''development'')),
                           (''checks'',
                            JObj [(''database'', dbHealth),
                                  (''redis'', redisHealth),
                                  (''memory'', memoryHealth)])]), hc')))"

definition performHealthCheck ::
  "'c redis_client \<Rightarrow> 'c HealthChecker \<Rightarrow> health_env \<Rightarrow> (js_error + jsval) \<times> 'c HealthChecker" where
  "performHealthCheck lib hc env =
     (case performHealthCheck_try lib hc env of
        (Inr result, hc') \<Rightarrow> (Inr result, hc')
      | (Inl error, hc') \<Rightarrow>
          (Inr (JObj [(''status'', JStr ''unhealthy''),
                      (''timestamp'', JStr (isoString env)),
                      (''uptime'', getUptime hc' (now env + total_elapsed env)),
                      (''responseTime'', JNum (of_int (total_elapsed env))),
                      (''error'', JStr (message error)),
                      (''version'', JStr (env_or (npm_package_version env) ''1.0.0'')),
                      (''environment'', JStr (env_or (NODE_ENV env) ''development''))]), hc'))"

definition performReadinessCheck :: "'c HealthChecker \<Rightarrow> health_env \<Rightarrow> js_error + jsval" where
  "performReadinessCheck hc env =
     (if isShuttingDown hc then
        Inr (JObj [(''status'', JStr ''not_ready''),
                   (''reason'', JStr ''Application is shutting down''),
                   (''timestamp'', JStr (isoString env))])
      else
        (case pool_query (pool hc) ''SELECT 1'' of
           Inr dbResult \<Rightarrow>
             Inr (JObj [(''status'', JStr ''ready''),
                        (''timestamp'', JStr (isoString env)),
                        (''checks'', JObj [(''database'', JStr ''connected''),
                                           (''shutdown'', JStr ''false'')])])
         | Inl error \<Rightarrow>
             Inr (JObj [(''status'', JStr ''not_ready''),
                        (''reason'', JStr ''Database connection failed''),
                        (''timestamp'', JStr (isoString env)),
                        (''error'', JStr (message error))])))"

section \<open>Concrete states for the examples\<close>

text \<open>
  A client with an open socket, an empty keyspace, the clock at \<open>0\<close> and the given fault
  schedule; a pool that holds it, with the given connection flag.
\<close>

definition example_client :: "bool list \<Rightarrow> redis_sim" where
  "example_client fs = \<lparr> socket_open = True, db = [], clock = 0, faults = fs \<rparr>"

definition example_pool :: "bool \<Rightarrow> bool list \<Rightarrow> redis_sim RedisConnectionPool" where
  "example_pool flag fs =
     (new_RedisConnectionPool ()) \<lparr> client := Some (example_client fs), isConnected := flag \<rparr>"

text \<open>
  A client library whose graceful \<open>quit\<close> always rejects and leaves the socket as it is,
  while its forced \<open>disconnect\<close> is the one of the in-memory Redis.
\<close>

definition stuck_quit_lib :: "redis_sim redis_client" where
  "stuck_quit_lib = sim_lib \<lparr> cmd_quit := (\<lambda>c. (Inl (JsError ''Socket timeout''), c)) \<rparr>"

text \<open>A caller that checks the same identifier \<open>k\<close> times in a row.\<close>

fun check_repeatedly ::
  "nat \<Rightarrow> 'c redis_client \<Rightarrow> 'c RedisConnectionPool \<Rightarrow> string \<Rightarrow> int \<Rightarrow> int \<Rightarrow>
   (js_error + rate_limit_result) list \<times> 'c RedisConnectionPool" where
  "check_repeatedly 0 lib p identifier limit windowSeconds = ([], p)"
| "check_repeatedly (Suc k) lib p identifier limit windowSeconds =
     (case checkRateLimit lib p identifier limit windowSeconds of
        (r, p') \<Rightarrow>
          (case check_repeatedly k lib p' identifier limit windowSeconds of
             (rs, p'') \<Rightarrow> (r # rs, p'')))"

text \<open>A pool whose store already counts seven calls of the identifier \<open>u\<close>.\<close>

definition counted_pool :: "bool \<Rightarrow> bool list \<Rightarrow> redis_sim RedisConnectionPool" where
  "counted_pool flag fs =
     (new_RedisConnectionPool ())
       \<lparr> client := Some \<lparr> socket_open = True,
                           db = [(''rate_limit:u'', \<lparr>val = ''7'', expire_at = Some 60\<rparr>)],
                           clock = 0, faults = fs \<rparr>,
         isConnected := flag \<rparr>"

text \<open>
  A health checker over a database that answers and the example pool, and one reading of
  the process and the clock.
\<close>

definition example_checker :: "redis_sim HealthChecker" where
  "example_checker =
     \<lparr> pool = Some \<lparr> query = (\<lambda>sql. Inr [JObj [(''health_check'', JNum 1),
                                                 (''timestamp'', JStr ''2024-01-01T00:00:00.000Z'')]]),
                     totalCount = 2, idleCount = 1, waitingCount = 0 \<rparr>,
       redisPool = Some (example_pool True []),
       startTime = 1000,
       isShuttingDown = False \<rparr>"

definition example_env :: health_env where
  "example_env =
     \<lparr> now = 61000, db_elapsed = 3, redis_elapsed = 1, total_elapsed = 4,
       isoString = ''2024-01-01T00:00:00.004Z'',
       rss = 104857600, heapTotal = 52428800, heapUsed = 41943040, external = 1048576,
       arrayBuffers = 0, memoryLimit = None, npm_package_version = None, NODE_ENV = Some ''production'' \<rparr>"

text \<open>The keys of the \<open>checks\<close> object of a liveness result.\<close>

definition checks_keys :: "js_error + jsval \<Rightarrow> string list" where
  "checks_keys r =
     (case r of
        Inl e \<Rightarrow> []
      | Inr result \<Rightarrow> (case get_prop result ''checks'' of Inl e \<Rightarrow> [] | Inr checks \<Rightarrow> keys_of checks))"

definition result_keys :: "js_error + jsval \<Rightarrow> string list" where
  "result_keys r = (case r of Inl e \<Rightarrow> [] | Inr result \<Rightarrow> keys_of result)"

section \<open>Reconnection backoff\<close>

lemma getReconnectDelay_stop:
  "maxRetries p \<le> retries \<Longrightarrow> getReconnectDelay p retries rnd = JBool False"
  by (simp add: getReconnectDelay_def)

lemma getReconnectDelay_delay:
  "retries < maxRetries p \<Longrightarrow>
   getReconnectDelay p retries rnd =
     JNum (min (retryDelay p * 2 ^ retries + rnd * 1000) (maxRetryDelay p))"
  by (simp add: getReconnectDelay_def)

text \<open>
  C6. With the constants of the constructor (\<open>maxRetries = 5\<close>, \<open>retryDelay = 1000\<close>,
  \<open>maxRetryDelay = 30000\<close>) and \<open>rnd\<close> the value of \<open>Math.random()\<close> in \<open>[0, 1)\<close>: for an
  attempt count below 5 the result is the number \<open>min (1000 * 2 ^ attempt + jitter) 30000\<close>
  with the jitter \<open>rnd * 1000\<close> in \<open>[0, 1000)\<close>; for an attempt count of 5 or more it is
  \<open>false\<close>, the signal not to retry. How \<open>Math.random()\<close> distributes its values is the
  runtime's matter: every value of its range is covered.
\<close>

theorem getReconnectDelay_backoff:
  assumes "maxRetries p = 5" and "retryDelay p = 1000" and "maxRetryDelay p = 30000"
    and "0 \<le> rnd" and "rnd < 1"
  shows "(attempt < 5 \<longrightarrow>
            getReconnectDelay p attempt rnd = JNum (min (1000 * 2 ^ attempt + rnd * 1000) 30000)
            \<and> 0 \<le> rnd * 1000 \<and> rnd * 1000 < 1000)
       \<and> (5 \<le> attempt \<longrightarrow> getReconnectDelay p attempt rnd = JBool False)"
proof (intro conjI impI)
  assume "attempt < 5"
  with assms show "getReconnectDelay p attempt rnd = JNum (min (1000 * 2 ^ attempt + rnd * 1000) 30000)"
    by (simp add: getReconnectDelay_delay)
next
  from assms show "0 \<le> rnd * 1000" and "rnd * 1000 < 1000" by simp_all
next
  assume "5 \<le> attempt"
  with assms show "getReconnectDelay p attempt rnd = JBool False"
    by (simp add: getReconnectDelay_stop)
qed

theorem getReconnectDelay_backoff_witness:
  "getReconnectDelay (new_RedisConnectionPool () :: unit RedisConnectionPool) 2 (1 / 2) = JNum 4500
   \<and> getReconnectDelay (new_RedisConnectionPool () :: unit RedisConnectionPool) 4 (1 / 2) = JNum 16500
   \<and> getReconnectDelay (new_RedisConnectionPool () :: unit RedisConnectionPool) 5 (1 / 2) = JBool False"
  using getReconnectDelay_backoff [of "new_RedisConnectionPool () :: unit RedisConnectionPool" "1 / 2" 2]
    getReconnectDelay_backoff [of "new_RedisConnectionPool () :: unit RedisConnectionPool" "1 / 2" 4]
    getReconnectDelay_backoff [of "new_RedisConnectionPool () :: unit RedisConnectionPool" "1 / 2" 5]
  by (simp add: new_RedisConnectionPool_def)

lemma backoff_step:
  fixes a b :: real
  assumes "m < n" and "0 \<le> a" and "a < 1" and "0 \<le> b"
  shows "1000 * 2 ^ m + a * 1000 \<le> 1000 * 2 ^ n + b * 1000"
proof -
  have "(2::real) ^ Suc m \<le> 2 ^ n"
    using assms(1) by (intro power_increasing) simp_all
  then have "1000 * (2::real) ^ m * 2 \<le> 1000 * 2 ^ n" by simp
  moreover have "(1::real) \<le> 2 ^ m" by simp
  ultimately have "1000 * (2::real) ^ m + 1000 \<le> 1000 * 2 ^ n" by linarith
  with assms show ?thesis by linarith
qed

text \<open>
  C7. The delay does not decrease with the attempt count: for attempts \<open>m < n\<close>, both below
  \<open>maxRetries\<close>, and any two values \<open>rm\<close>, \<open>rn\<close> of \<open>Math.random()\<close> (so any two jitters
  \<open>rm * 1000\<close>, \<open>rn * 1000\<close> of \<open>[0, 1000)\<close>, chosen independently), the delay of attempt
  \<open>m\<close> is at most the delay of attempt \<open>n\<close>.
\<close>

theorem getReconnectDelay_monotone:
  assumes "maxRetries p = 5" and "retryDelay p = 1000" and "maxRetryDelay p = 30000"
    and "m < n" and "n < 5"
    and "0 \<le> rm" and "rm < 1" and "0 \<le> rn" and "rn < 1"
  shows "\<exists>dm dn. getReconnectDelay p m rm = JNum dm
               \<and> getReconnectDelay p n rn = JNum dn \<and> dm \<le> dn"
proof -
  have "1000 * 2 ^ m + rm * 1000 \<le> 1000 * 2 ^ n + rn * 1000"
    using assms by (intro backoff_step) simp_all
  then have "min (1000 * 2 ^ m + rm * 1000) 30000 \<le> min (1000 * 2 ^ n + rn * 1000) (30000::real)"
    by (simp add: min_le_iff_disj)
  with assms show ?thesis
    by (simp add: getReconnectDelay_def)
qed

theorem getReconnectDelay_monotone_witness:
  "\<exists>dm dn. getReconnectDelay (new_RedisConnectionPool () :: unit RedisConnectionPool) 0 (999 / 1000) = JNum dm
          \<and> getReconnectDelay (new_RedisConnectionPool () :: unit RedisConnectionPool) 1 0 = JNum dn
          \<and> dm \<le> dn"
  using getReconnectDelay_monotone [of "new_RedisConnectionPool () :: unit RedisConnectionPool" 0 1 "999 / 1000" 0]
  by (simp add: new_RedisConnectionPool_def)

section \<open>The wrapper methods never throw\<close>

lemma get_disconnected: "\<not> isConnected p \<Longrightarrow> get lib p key = (Inr None, p)"
  by (simp add: get_def)

lemma set_disconnected: "\<not> isConnected p \<Longrightarrow> set' lib p key v opts = (Inr False, p)"
  by (simp add: set'_def)

lemma del_disconnected: "\<not> isConnected p \<Longrightarrow> del lib p key = (Inr (JBool False), p)"
  by (simp add: del_def)

lemma exists_disconnected: "\<not> isConnected p \<Longrightarrow> exists lib p key = (Inr (JBool False), p)"
  by (simp add: exists_def)

lemma expire_disconnected: "\<not> isConnected p \<Longrightarrow> expire lib p key secs = (Inr False, p)"
  by (simp add: expire_def)

lemma get_caught:
  "isConnected p \<Longrightarrow> fst (client_call (cmd_get lib key) p) = Inl e \<Longrightarrow>
   fst (get lib p key) = Inr None"
  by (cases "client_call (cmd_get lib key) p") (simp add: get_def)

lemma set_caught:
  "isConnected p \<Longrightarrow> fst (client_call (cmd_set lib key v opts) p) = Inl e \<Longrightarrow>
   fst (set' lib p key v opts) = Inr False"
  by (cases "client_call (cmd_set lib key v opts) p") (simp add: set'_def)

lemma del_caught:
  "isConnected p \<Longrightarrow> fst (client_call (cmd_del lib [key]) p) = Inl e \<Longrightarrow>
   fst (del lib p key) = Inr (JBool False)"
  by (cases "client_call (cmd_del lib [key]) p") (simp add: del_def)

lemma exists_caught:
  "isConnected p \<Longrightarrow> fst (client_call (cmd_exists lib key) p) = Inl e \<Longrightarrow>
   fst (exists lib p key) = Inr (JBool False)"
  by (cases "client_call (cmd_exists lib key) p") (simp add: exists_def)

lemma expire_caught:
  "isConnected p \<Longrightarrow> fst (client_call (cmd_expire lib key secs) p) = Inl e \<Longrightarrow>
   fst (expire lib p key secs) = Inr False"
  by (cases "client_call (cmd_expire lib key secs) p") (simp add: expire_def)

lemma get_no_throw: "\<exists>r. fst (get lib p key) = Inr r"
  by (cases "client_call (cmd_get lib key) p") (auto simp: get_def split: sum.splits)

lemma set_no_throw: "\<exists>r. fst (set' lib p key v opts) = Inr r"
  by (cases "client_call (cmd_set lib key v opts) p") (auto simp: set'_def split: sum.splits)

lemma del_no_throw: "\<exists>v. fst (del lib p key) = Inr v"
  by (cases "client_call (cmd_del lib [key]) p") (auto simp: del_def split: sum.splits)

lemma exists_no_throw: "\<exists>v. fst (exists lib p key) = Inr v"
  by (cases "client_call (cmd_exists lib key) p") (auto simp: exists_def split: sum.splits)

lemma expire_no_throw: "\<exists>v. fst (expire lib p key secs) = Inr v"
  by (cases "client_call (cmd_expire lib key secs) p") (auto simp: expire_def split: sum.splits)

text \<open>
  C1. For each of \<open>get\<close>, \<open>set\<close>, \<open>del\<close>, \<open>exists\<close> and \<open>expire\<close>, with any client
  library and any pool: when \<open>isConnected\<close> is false the call returns the safe default
  (\<open>null\<close> for \<open>get\<close>, \<open>false\<close> for the others) and leaves the pool as it is; when
  \<open>isConnected\<close> is true and the client's call throws, the error is caught and the same
  default is returned; and in every case the result is a value, not an exception.
\<close>

theorem facade_safe_defaults:
  "(\<not> isConnected p \<longrightarrow>
      get lib p key = (Inr None, p) \<and>
      set' lib p key v opts = (Inr False, p) \<and>
      del lib p key = (Inr (JBool False), p) \<and>
      exists lib p key = (Inr (JBool False), p) \<and>
      expire lib p key secs = (Inr False, p))
   \<and> (isConnected p \<longrightarrow>
      (\<forall>e. fst (client_call (cmd_get lib key) p) = Inl e \<longrightarrow> fst (get lib p key) = Inr None) \<and>
      (\<forall>e. fst (client_call (cmd_set lib key v opts) p) = Inl e \<longrightarrow>
            fst (set' lib p key v opts) = Inr False) \<and>
      (\<forall>e. fst (client_call (cmd_del lib [key]) p) = Inl e \<longrightarrow>
            fst (del lib p key) = Inr (JBool False)) \<and>
      (\<forall>e. fst (client_call (cmd_exists lib key) p) = Inl e \<longrightarrow>
            fst (exists lib p key) = Inr (JBool False)) \<and>
      (\<forall>e. fst (client_call (cmd_expire lib key secs) p) = Inl e \<longrightarrow>
            fst (expire lib p key secs) = Inr False))
   \<and> (\<exists>r. fst (get lib p key) = Inr r)
   \<and> (\<exists>r. fst (set' lib p key v opts) = Inr r)
   \<and> (\<exists>r. fst (del lib p key) = Inr r)
   \<and> (\<exists>r. fst (exists lib p key) = Inr r)
   \<and> (\<exists>r. fst (expire lib p key secs) = Inr r)"
  using get_disconnected [of p lib key] set_disconnected [of p lib key v opts]
    del_disconnected [of p lib key] exists_disconnected [of p lib key]
    expire_disconnected [of p lib key secs]
    get_caught [of p lib key] set_caught [of p lib key v opts] del_caught [of p lib key]
    exists_caught [of p lib key] expire_caught [of p lib key secs]
    get_no_throw [of lib p key] set_no_throw [of lib p key v opts] del_no_throw [of lib p key]
    exists_no_throw [of lib p key] expire_no_throw [of lib p key secs]
  by blast

lemma example_faulty_call:
  "isConnected (example_pool True [True])"
  "fst (client_call (cmd_get sim_lib ''k'') (example_pool True [True])) = Inl (JsError ''Connection lost'')"
  "fst (client_call (cmd_set sim_lib ''k'' ''v'' None) (example_pool True [True])) = Inl (JsError ''Connection lost'')"
  "fst (client_call (cmd_del sim_lib [''k'']) (example_pool True [True])) = Inl (JsError ''Connection lost'')"
  "fst (client_call (cmd_exists sim_lib ''k'') (example_pool True [True])) = Inl (JsError ''Connection lost'')"
  "fst (client_call (cmd_expire sim_lib ''k'' 60) (example_pool True [True])) = Inl (JsError ''Connection lost'')"
  by (simp_all add: example_pool_def example_client_def new_RedisConnectionPool_def client_call_def
      sim_lib_def sim_get_def sim_set_def sim_del_def sim_exists_def sim_expire_def sim_command_def)

theorem facade_safe_defaults_witness:
  "\<not> isConnected (example_pool False [])
   \<and> get sim_lib (example_pool False []) ''k'' = (Inr None, example_pool False [])
   \<and> expire sim_lib (example_pool False []) ''k'' 60 = (Inr False, example_pool False [])
   \<and> isConnected (example_pool True [True])
   \<and> fst (client_call (cmd_get sim_lib ''k'') (example_pool True [True])) = Inl (JsError ''Connection lost'')
   \<and> fst (get sim_lib (example_pool True [True]) ''k'') = Inr None
   \<and> fst (set' sim_lib (example_pool True [True]) ''k'' ''v'' None) = Inr False
   \<and> fst (del sim_lib (example_pool True [True]) ''k'') = Inr (JBool False)
   \<and> fst (exists sim_lib (example_pool True [True]) ''k'') = Inr (JBool False)
   \<and> fst (expire sim_lib (example_pool True [True]) ''k'' 60) = Inr False"
proof -
  have off: "\<not> isConnected (example_pool False [])"
    by (simp add: example_pool_def)
  note a = facade_safe_defaults [of "example_pool False []" sim_lib "''k''" "''v''" None 60]
  note b = facade_safe_defaults [of "example_pool True [True]" sim_lib "''k''" "''v''" None 60]
  from a off b example_faulty_call show ?thesis by blast
qed

section \<open>Printing and reading a counter\<close>

lemma digits_val_append:
  "digits_val a (xs @ ys) = (case digits_val a xs of None \<Rightarrow> None | Some b \<Rightarrow> digits_val b ys)"
  by (induction xs arbitrary: a) (auto split: option.splits)

lemma digit_of_nat:
  assumes "d < 10"
  shows "digit_val (''0123456789'' ! d) = Some (int d)"
    and "''0123456789'' ! d \<noteq> CHR ''-''"
    and "0 < d \<Longrightarrow> ''0123456789'' ! d \<noteq> CHR ''0''"
proof -
  from assms have "d \<in> {0, 1, 2, 3, 4, 5, 6, 7, 8, 9}" by auto
  then show "digit_val (''0123456789'' ! d) = Some (int d)"
    and "''0123456789'' ! d \<noteq> CHR ''-''"
    and "0 < d \<Longrightarrow> ''0123456789'' ! d \<noteq> CHR ''0''"
    by (auto simp: digit_val_def)
qed

lemma string_of_nat_nonempty: "string_of_nat n \<noteq> []"
  by (subst string_of_nat.simps) simp

lemma digits_val_string_of_nat: "digits_val 0 (string_of_nat n) = Some (int n)"
proof (induction n rule: string_of_nat.induct)
  case (1 n)
  show ?case
  proof (cases "n < 10")
    case True
    then show ?thesis
      by (subst string_of_nat.simps) (simp add: digit_of_nat(1))
  next
    case False
    then have "digits_val 0 (string_of_nat (n div 10)) = Some (int (n div 10))"
      by (rule "1.IH")
    moreover have "digit_val (''0123456789'' ! (n mod 10)) = Some (int (n mod 10))"
      by (rule digit_of_nat(1)) simp
    moreover have "10 * int (n div 10) + int (n mod 10) = int n"
      by (simp add: zmod_int zdiv_int)
    ultimately show ?thesis using False
      by (subst string_of_nat.simps) (simp add: digits_val_append)
  qed
qed

lemma hd_string_of_nat:
  "hd (string_of_nat n) \<noteq> CHR ''-''"
  "0 < n \<Longrightarrow> hd (string_of_nat n) \<noteq> CHR ''0''"
proof (induction n rule: string_of_nat.induct)
  case (1 n)
  {
    case 1
    show ?case
    proof (cases "n < 10")
      case True
      then have "hd (string_of_nat n) = ''0123456789'' ! n"
        by (subst string_of_nat.simps) (simp only: if_True list.sel)
      with digit_of_nat(2) [OF True] show ?thesis by metis
    next
      case False
      with "1.IH"(1) show ?thesis
        by (subst string_of_nat.simps) (simp add: string_of_nat_nonempty)
    qed
  next
    case 2
    show ?case
    proof (cases "n < 10")
      case True
      then have "hd (string_of_nat n) = ''0123456789'' ! n"
        by (subst string_of_nat.simps) (simp only: if_True list.sel)
      with digit_of_nat(3) [OF True 2] show ?thesis by metis
    next
      case False
      then have "0 < n div 10" by simp
      with False "1.IH"(2) show ?thesis
        by (subst string_of_nat.simps) (simp add: string_of_nat_nonempty)
    qed
  }
qed

lemma string_of_nat_not_zero: "0 < n \<Longrightarrow> string_of_nat n \<noteq> ''0''"
  using hd_string_of_nat(2) [of n] by (cases "string_of_nat n") auto

lemma int_of_string_string_of_int:
  assumes "- (2 ^ 63) \<le> i" and "i \<le> 2 ^ 63 - 1"
  shows "int_of_string (string_of_int i) = Some i"
proof -
  consider "i = 0" | "0 < i" | "i < 0" by linarith
  then show ?thesis
  proof cases
    case 1
    then show ?thesis
      by (simp add: string_of_int_def string_of_nat.simps int_of_string_def)
  next
    case 2
    then have n: "0 < nat i" by simp
    from 2 assms show ?thesis
      using string_of_nat_not_zero [OF n] hd_string_of_nat [of "nat i"] n
        string_of_nat_nonempty [of "nat i"] digits_val_string_of_nat [of "nat i"]
      by (simp add: string_of_int_def int_of_string_def Let_def)
  next
    case 3
    then have n: "0 < nat (- i)" by simp
    from 3 assms show ?thesis
      using hd_string_of_nat [of "nat (- i)"] n
        string_of_nat_nonempty [of "nat (- i)"] digits_val_string_of_nat [of "nat (- i)"]
      by (simp add: string_of_int_def int_of_string_def Let_def)
  qed
qed

lemma int_of_string_range:
  "int_of_string s = Some i \<Longrightarrow> - (2 ^ 63) \<le> i \<and> i \<le> 2 ^ 63 - 1"
  by (auto simp: int_of_string_def Let_def split: if_splits option.splits)

lemma counter_range: "counter c k = Some n \<Longrightarrow> - (2 ^ 63) \<le> n"
  by (cases "live c k") (auto simp: counter_def dest: int_of_string_range)

section \<open>Rate limiting\<close>

lemma checkRateLimit_disconnected:
  "\<not> isConnected p \<Longrightarrow>
   checkRateLimit lib p ident limit w = (Inr \<lparr>allowed = True, remaining = limit, current = None\<rparr>, p)"
  by (simp add: checkRateLimit_def)

lemma checkRateLimit_incr_throws:
  assumes "isConnected p"
    and "client_call (cmd_incr lib (''rate_limit:'' @ ident)) p = (Inl e, p1)"
  shows "checkRateLimit lib p ident limit w =
           (Inr \<lparr>allowed = True, remaining = limit, current = None\<rparr>, p1)"
  using assms by (simp add: checkRateLimit_def)

lemma checkRateLimit_expire_throws:
  assumes "isConnected p"
    and "client_call (cmd_incr lib (''rate_limit:'' @ ident)) p = (Inr 1, p1)"
    and "client_call (cmd_expire lib (''rate_limit:'' @ ident) w) p1 = (Inl e, p2)"
  shows "checkRateLimit lib p ident limit w =
           (Inr \<lparr>allowed = True, remaining = limit, current = None\<rparr>, p2)"
  using assms by (simp add: checkRateLimit_def)

lemma checkRateLimit_counted:
  assumes "isConnected p"
    and "client_call (cmd_incr lib (''rate_limit:'' @ ident)) p = (Inr count, p1)"
    and "count = 1 \<Longrightarrow> client_call (cmd_expire lib (''rate_limit:'' @ ident) w) p1 = (Inr b, p2)"
    and "count \<noteq> 1 \<Longrightarrow> p2 = p1"
  shows "checkRateLimit lib p ident limit w =
           (Inr \<lparr>allowed = (count \<le> limit), remaining = max 0 (limit - count),
                 current = Some count\<rparr>, p2)"
  using assms by (cases "count = 1") (simp_all add: checkRateLimit_def)

lemma checkRateLimit_no_throw: "\<exists>r. fst (checkRateLimit lib p ident limit w) = Inr r"
proof (cases "isConnected p")
  case False
  then show ?thesis by (simp add: checkRateLimit_disconnected)
next
  case True
  obtain r1 p1 where incr: "client_call (cmd_incr lib (''rate_limit:'' @ ident)) p = (r1, p1)"
    by (cases "client_call (cmd_incr lib (''rate_limit:'' @ ident)) p")
  show ?thesis
  proof (cases r1)
    case (Inl e)
    with True incr show ?thesis by (simp add: checkRateLimit_incr_throws)
  next
    case (Inr count)
    obtain r2 p2 where ex: "client_call (cmd_expire lib (''rate_limit:'' @ ident) w) p1 = (r2, p2)"
      by (cases "client_call (cmd_expire lib (''rate_limit:'' @ ident) w) p1")
    with True incr Inr show ?thesis
      by (cases r2; cases "count = 1") (simp_all add: checkRateLimit_def)
  qed
qed

text \<open>
  C2. \<open>checkRateLimit\<close> fails open, with any client library and whatever the store holds:
  when \<open>isConnected\<close> is false, when the increment throws, and when the increment returns 1
  and the expire throws, the result is \<open>allowed = true\<close> with \<open>remaining = limit\<close>, and no
  exception reaches the caller.
\<close>

theorem checkRateLimit_fails_open:
  "(\<not> isConnected p \<longrightarrow>
      checkRateLimit lib p ident limit w =
        (Inr \<lparr>allowed = True, remaining = limit, current = None\<rparr>, p))
   \<and> (\<forall>e p1. isConnected p \<and>
         client_call (cmd_incr lib (''rate_limit:'' @ ident)) p = (Inl e, p1) \<longrightarrow>
         checkRateLimit lib p ident limit w =
           (Inr \<lparr>allowed = True, remaining = limit, current = None\<rparr>, p1))
   \<and> (\<forall>e p1 p2. isConnected p \<and>
         client_call (cmd_incr lib (''rate_limit:'' @ ident)) p = (Inr 1, p1) \<and>
         client_call (cmd_expire lib (''rate_limit:'' @ ident) w) p1 = (Inl e, p2) \<longrightarrow>
         checkRateLimit lib p ident limit w =
           (Inr \<lparr>allowed = True, remaining = limit, current = None\<rparr>, p2))"
  using checkRateLimit_disconnected [of p lib ident limit w]
    checkRateLimit_incr_throws [of p lib ident _ _ limit w]
    checkRateLimit_expire_throws [of p lib ident _ w _ _ limit]
  by blast

lemma counted_pool_calls:
  "\<not> isConnected (counted_pool False [])"
  "isConnected (counted_pool True [True])"
  "client_call (cmd_incr sim_lib (''rate_limit:'' @ ''u'')) (counted_pool True [True]) =
     (Inl (JsError ''Connection lost''), counted_pool True [])"
  by (simp_all add: counted_pool_def new_RedisConnectionPool_def client_call_def sim_lib_def
      sim_incr_def sim_command_def)

lemma fresh_pool_calls:
  "isConnected (example_pool True [False, True])"
  "\<exists>p1. client_call (cmd_incr sim_lib (''rate_limit:'' @ ''u'')) (example_pool True [False, True]) = (Inr 1, p1)
     \<and> fst (client_call (cmd_expire sim_lib (''rate_limit:'' @ ''u'') 60) p1) = Inl (JsError ''Connection lost'')"
  by (simp_all add: example_pool_def example_client_def new_RedisConnectionPool_def client_call_def
      sim_lib_def sim_incr_def sim_expire_def sim_command_def live_def)

theorem checkRateLimit_fails_open_witness:
  "\<not> isConnected (counted_pool False [])
   \<and> checkRateLimit sim_lib (counted_pool False []) ''u'' 3 60 =
       (Inr \<lparr>allowed = True, remaining = 3, current = None\<rparr>, counted_pool False [])
   \<and> isConnected (counted_pool True [True])
   \<and> client_call (cmd_incr sim_lib (''rate_limit:'' @ ''u'')) (counted_pool True [True]) =
       (Inl (JsError ''Connection lost''), counted_pool True [])
   \<and> checkRateLimit sim_lib (counted_pool True [True]) ''u'' 3 60 =
       (Inr \<lparr>allowed = True, remaining = 3, current = None\<rparr>, counted_pool True [])
   \<and> isConnected (example_pool True [False, True])
   \<and> fst (checkRateLimit sim_lib (example_pool True [False, True]) ''u'' 0 60) =
       Inr \<lparr>allowed = True, remaining = 0, current = None\<rparr>"
proof -
  note a = checkRateLimit_fails_open [of "counted_pool False []" sim_lib "''u''" 3 60]
  note b = checkRateLimit_fails_open [of "counted_pool True [True]" sim_lib "''u''" 3 60]
  note c = checkRateLimit_fails_open [of "example_pool True [False, True]" sim_lib "''u''" 0 60]
  from fresh_pool_calls obtain p1 e p2 where
    "client_call (cmd_incr sim_lib (''rate_limit:'' @ ''u'')) (example_pool True [False, True]) = (Inr 1, p1)"
    "client_call (cmd_expire sim_lib (''rate_limit:'' @ ''u'') 60) p1 = (Inl e, p2)"
    by (metis prod.collapse)
  with c fresh_pool_calls(1) have
    "checkRateLimit sim_lib (example_pool True [False, True]) ''u'' 0 60 =
       (Inr \<lparr>allowed = True, remaining = 0, current = None\<rparr>, p2)"
    by blast
  then have "fst (checkRateLimit sim_lib (example_pool True [False, True]) ''u'' 0 60) =
       Inr \<lparr>allowed = True, remaining = 0, current = None\<rparr>"
    by simp
  with a b counted_pool_calls fresh_pool_calls(1) show ?thesis by blast
qed

lemma string_of_int_1: "string_of_int 1 = ''1''"
  by (simp add: string_of_int_def string_of_nat.simps)

lemma sim_command_ok:
  "socket_open c \<Longrightarrow> faults c = [] \<Longrightarrow> sim_command run c = run c"
  by (simp add: sim_command_def)

lemma entry_val_update:
  "(e :: redis_entry)\<lparr>val := x\<rparr> = \<lparr>val = x, expire_at = expire_at e\<rparr>"
  by (cases e) simp

lemma sim_incr_ok:
  assumes "socket_open c" and "faults c = []"
    and "counter c k = Some n" and "n < 2 ^ 63 - 1"
  shows "sim_incr k c =
           (Inr (n + 1),
            c\<lparr>db := AList.update k \<lparr>val = string_of_int (n + 1), expire_at = expiry c k\<rparr> (db c)\<rparr>)"
proof (cases "live c k")
  case None
  with assms(3) have "n = 0" by (simp add: counter_def)
  with None assms(1,2) show ?thesis
    by (simp add: sim_incr_def sim_command_ok expiry_def string_of_int_1)
next
  case (Some e)
  with assms(3) have "int_of_string (val e) = Some n" by (simp add: counter_def)
  with Some assms(1,2,4) show ?thesis
    by (simp add: sim_incr_def sim_command_ok expiry_def entry_val_update)
qed

lemma live_expiry_ahead:
  "expiry c k = Some t \<Longrightarrow> clock c < t"
  by (auto simp: expiry_def live_def split: option.splits if_splits)

lemma live_after_update:
  assumes "expire_at e = expiry c k"
  shows "live (c\<lparr>db := AList.update k e (db c)\<rparr>) k = Some e"
proof (cases "expiry c k")
  case None
  with assms show ?thesis by (simp add: live_def update_conv')
next
  case (Some t)
  with assms live_expiry_ahead [OF Some] show ?thesis by (simp add: live_def update_conv')
qed

lemma sim_expire_ok:
  assumes "socket_open c" and "faults c = []" and "live c k = Some e"
  shows "sim_expire k w c =
           (Inr True, c\<lparr>db := AList.update k (e\<lparr>expire_at := Some (clock c + w)\<rparr>) (db c)\<rparr>)"
  using assms by (simp add: sim_expire_def sim_command_ok)

lemma checkRateLimit_sim:
  assumes "isConnected p" and "client p = Some c" and "socket_open c" and "faults c = []"
    and "counter c (''rate_limit:'' @ ident) = Some n" and "n < 2 ^ 63 - 1"
  shows "\<exists>c'. checkRateLimit sim_lib p ident limit w =
                (Inr \<lparr>allowed = (n + 1 \<le> limit), remaining = max 0 (limit - (n + 1)),
                      current = Some (n + 1)\<rparr>, p\<lparr>client := Some c'\<rparr>)
            \<and> map_of (db c') (''rate_limit:'' @ ident) =
                Some \<lparr>val = string_of_int (n + 1),
                      expire_at = (if n + 1 = 1 then Some (clock c + w)
                                   else expiry c (''rate_limit:'' @ ident))\<rparr>
            \<and> int_of_string (string_of_int (n + 1)) = Some (n + 1)
            \<and> clock c' = clock c \<and> socket_open c'"
proof -
  let ?k = "''rate_limit:'' @ ident"
  have reads: "int_of_string (string_of_int (n + 1)) = Some (n + 1)"
    using assms(6) counter_range [OF assms(5)] by (intro int_of_string_string_of_int) simp_all
  let ?e = "\<lparr>val = string_of_int (n + 1), expire_at = expiry c ?k\<rparr>"
  let ?c1 = "c\<lparr>db := AList.update ?k ?e (db c)\<rparr>"
  let ?p1 = "p\<lparr>client := Some ?c1\<rparr>"
  have incr: "client_call (cmd_incr sim_lib ?k) p = (Inr (n + 1), ?p1)"
    using assms sim_incr_ok [of c ?k n]
    by (simp add: client_call_def sim_lib_def)
  show ?thesis
  proof (cases "n + 1 = 1")
    case False
    have "checkRateLimit sim_lib p ident limit w =
            (Inr \<lparr>allowed = (n + 1 \<le> limit), remaining = max 0 (limit - (n + 1)),
                  current = Some (n + 1)\<rparr>, ?p1)"
      using assms(1) incr False by (intro checkRateLimit_counted) simp_all
    moreover have "map_of (db ?c1) ?k = Some ?e" by (simp add: update_conv')
    ultimately show ?thesis using False assms(3) reads by (intro exI [of _ ?c1]) simp
  next
    case True
    let ?e2 = "?e\<lparr>expire_at := Some (clock c + w)\<rparr>"
    let ?c2 = "?c1\<lparr>db := AList.update ?k ?e2 (db ?c1)\<rparr>"
    have "live ?c1 ?k = Some ?e" by (intro live_after_update) simp
    then have "sim_expire ?k w ?c1 = (Inr True, ?c2)"
      using assms(3,4) sim_expire_ok [of ?c1 ?k ?e w] by simp
    then have ex: "client_call (cmd_expire sim_lib ?k w) ?p1 = (Inr True, p\<lparr>client := Some ?c2\<rparr>)"
      by (simp add: client_call_def sim_lib_def)
    have "checkRateLimit sim_lib p ident limit w =
            (Inr \<lparr>allowed = (n + 1 \<le> limit), remaining = max 0 (limit - (n + 1)),
                  current = Some (n + 1)\<rparr>, p\<lparr>client := Some ?c2\<rparr>)"
      using assms(1) incr ex True by (intro checkRateLimit_counted) simp_all
    moreover have "map_of (db ?c2) ?k = Some ?e2" by (simp add: update_conv')
    ultimately show ?thesis using True assms(3) reads by (intro exI [of _ ?c2]) simp
  qed
qed

lemma scenario_calls:
  "fst (check_repeatedly 4 sim_lib (example_pool True []) ''u'' 3 60) =
     [Inr \<lparr>allowed = True, remaining = 2, current = Some 1\<rparr>,
      Inr \<lparr>allowed = True, remaining = 1, current = Some 2\<rparr>,
      Inr \<lparr>allowed = True, remaining = 0, current = Some 3\<rparr>,
      Inr \<lparr>allowed = False, remaining = 0, current = Some 4\<rparr>]"
  by code_simp

lemma scenario_before:
  "fst (checkRateLimit sim_lib
         (elapse 59 (snd (check_repeatedly 4 sim_lib (example_pool True []) ''u'' 3 60))) ''u'' 3 60) =
     Inr \<lparr>allowed = False, remaining = 0, current = Some 5\<rparr>"
  by code_simp

lemma scenario_after:
  "fst (checkRateLimit sim_lib
         (elapse 60 (snd (check_repeatedly 4 sim_lib (example_pool True []) ''u'' 3 60))) ''u'' 3 60) =
     Inr \<lparr>allowed = True, remaining = 2, current = Some 1\<rparr>"
  by code_simp

text \<open>
  C4. When the pool is connected and the store operations succeed: with any client
  library, if the increment of \<open>rate_limit:<identifier>\<close> returns \<open>count\<close>, then the expire
  with \<open>windowSeconds\<close> is issued exactly when \<open>count = 1\<close> (the pool after the call is the
  one after the expire in that case, the one after the increment otherwise) and the
  result is \<open>allowed = (count \<le> limit)\<close>, \<open>remaining = max 0 (limit - count)\<close>. On the
  in-memory Redis, with a counter that stands at \<open>n\<close>, the stored counter becomes the
  decimal text of \<open>n + 1\<close>, which reads back as \<open>n + 1\<close>, and the key expires
  \<open>windowSeconds\<close> after the call exactly when \<open>n + 1 = 1\<close>, its expiry left alone
  otherwise. In particular, with \<open>limit = 3\<close> and a window of 60 seconds on a
  fresh identifier, calls 1 to 3 are allowed with 2, 1, 0 remaining, call 4 is refused
  with 0 remaining; 59 seconds after the first call the next one is still refused, and 60
  seconds after it the next call counts 1 again and is allowed.
\<close>

theorem checkRateLimit_counts:
  "(\<forall>count p1 b p2. isConnected p \<and>
       client_call (cmd_incr lib (''rate_limit:'' @ ident)) p = (Inr count, p1) \<and>
       (count = 1 \<longrightarrow> client_call (cmd_expire lib (''rate_limit:'' @ ident) w) p1 = (Inr b, p2)) \<and>
       (count \<noteq> 1 \<longrightarrow> p2 = p1) \<longrightarrow>
       checkRateLimit lib p ident limit w =
         (Inr \<lparr>allowed = (count \<le> limit), remaining = max 0 (limit - count),
               current = Some count\<rparr>, p2))
   \<and> (\<forall>c n. isConnected q \<and> client q = Some c \<and> socket_open c \<and> faults c = [] \<and>
         counter c (''rate_limit:'' @ ident) = Some n \<and> n < 2 ^ 63 - 1 \<longrightarrow>
         (\<exists>c'. checkRateLimit sim_lib q ident limit w =
                  (Inr \<lparr>allowed = (n + 1 \<le> limit), remaining = max 0 (limit - (n + 1)),
                        current = Some (n + 1)\<rparr>, q\<lparr>client := Some c'\<rparr>)
              \<and> map_of (db c') (''rate_limit:'' @ ident) =
                  Some \<lparr>val = string_of_int (n + 1),
                        expire_at = (if n + 1 = 1 then Some (clock c + w)
                                     else expiry c (''rate_limit:'' @ ident))\<rparr>
              \<and> int_of_string (string_of_int (n + 1)) = Some (n + 1)
              \<and> clock c' = clock c \<and> socket_open c'))
   \<and> fst (check_repeatedly 4 sim_lib (example_pool True []) ''u'' 3 60) =
       [Inr \<lparr>allowed = True, remaining = 2, current = Some 1\<rparr>,
        Inr \<lparr>allowed = True, remaining = 1, current = Some 2\<rparr>,
        Inr \<lparr>allowed = True, remaining = 0, current = Some 3\<rparr>,
        Inr \<lparr>allowed = False, remaining = 0, current = Some 4\<rparr>]
   \<and> fst (checkRateLimit sim_lib
            (elapse 59 (snd (check_repeatedly 4 sim_lib (example_pool True []) ''u'' 3 60)))
            ''u'' 3 60) =
       Inr \<lparr>allowed = False, remaining = 0, current = Some 5\<rparr>
   \<and> fst (checkRateLimit sim_lib
            (elapse 60 (snd (check_repeatedly 4 sim_lib (example_pool True []) ''u'' 3 60)))
            ''u'' 3 60) =
       Inr \<lparr>allowed = True, remaining = 2, current = Some 1\<rparr>"
proof (intro conjI allI impI)
  fix count p1 b p2
  assume "isConnected p \<and>
       client_call (cmd_incr lib (''rate_limit:'' @ ident)) p = (Inr count, p1) \<and>
       (count = 1 \<longrightarrow> client_call (cmd_expire lib (''rate_limit:'' @ ident) w) p1 = (Inr b, p2)) \<and>
       (count \<noteq> 1 \<longrightarrow> p2 = p1)"
  then show "checkRateLimit lib p ident limit w =
         (Inr \<lparr>allowed = (count \<le> limit), remaining = max 0 (limit - count),
               current = Some count\<rparr>, p2)"
    by (intro checkRateLimit_counted) blast+
next
  fix c n
  assume "isConnected q \<and> client q = Some c \<and> socket_open c \<and> faults c = [] \<and>
         counter c (''rate_limit:'' @ ident) = Some n \<and> n < 2 ^ 63 - 1"
  then show "\<exists>c'. checkRateLimit sim_lib q ident limit w =
                  (Inr \<lparr>allowed = (n + 1 \<le> limit), remaining = max 0 (limit - (n + 1)),
                        current = Some (n + 1)\<rparr>, q\<lparr>client := Some c'\<rparr>)
              \<and> map_of (db c') (''rate_limit:'' @ ident) =
                  Some \<lparr>val = string_of_int (n + 1),
                        expire_at = (if n + 1 = 1 then Some (clock c + w)
                                     else expiry c (''rate_limit:'' @ ident))\<rparr>
              \<and> int_of_string (string_of_int (n + 1)) = Some (n + 1)
              \<and> clock c' = clock c \<and> socket_open c'"
    by (intro checkRateLimit_sim) blast+
qed (rule scenario_calls scenario_before scenario_after)+

lemma counted_pool_counter:
  "isConnected (counted_pool True [])"
  "client (counted_pool True []) =
     Some \<lparr> socket_open = True,
            db = [(''rate_limit:u'', \<lparr>val = ''7'', expire_at = Some 60\<rparr>)],
            clock = 0, faults = [] \<rparr>"
  "counter \<lparr> socket_open = True,
             db = [(''rate_limit:u'', \<lparr>val = ''7'', expire_at = Some 60\<rparr>)],
             clock = 0, faults = [] \<rparr> (''rate_limit:'' @ ''u'') = Some 7"
  "expiry \<lparr> socket_open = True,
            db = [(''rate_limit:u'', \<lparr>val = ''7'', expire_at = Some 60\<rparr>)],
            clock = 0, faults = [] \<rparr> ''rate_limit:u'' = Some 60"
  by (simp_all add: counted_pool_def counter_def expiry_def live_def int_of_string_def digit_val_def)

theorem checkRateLimit_counts_witness:
  "\<exists>c'. checkRateLimit sim_lib (counted_pool True []) ''u'' 10 60 =
          (Inr \<lparr>allowed = True, remaining = 2, current = Some 8\<rparr>,
           (counted_pool True [])\<lparr>client := Some c'\<rparr>)
       \<and> map_of (db c') ''rate_limit:u'' = Some \<lparr>val = ''8'', expire_at = Some 60\<rparr>"
proof -
  note t = checkRateLimit_counts [of "counted_pool True []" sim_lib "''u''" 60 10 "counted_pool True []"]
  from t have
    "\<And>c n. isConnected (counted_pool True []) \<Longrightarrow> client (counted_pool True []) = Some c \<Longrightarrow>
       socket_open c \<Longrightarrow> faults c = [] \<Longrightarrow> counter c (''rate_limit:'' @ ''u'') = Some n \<Longrightarrow>
       n < 2 ^ 63 - 1 \<Longrightarrow>
       \<exists>c'. checkRateLimit sim_lib (counted_pool True []) ''u'' 10 60 =
              (Inr \<lparr>allowed = (n + 1 \<le> 10), remaining = max 0 (10 - (n + 1)),
                    current = Some (n + 1)\<rparr>, (counted_pool True [])\<lparr>client := Some c'\<rparr>)
          \<and> map_of (db c') (''rate_limit:'' @ ''u'') =
              Some \<lparr>val = string_of_int (n + 1),
                    expire_at = (if n + 1 = 1 then Some (clock c + 60)
                                 else expiry c (''rate_limit:'' @ ''u''))\<rparr>
          \<and> int_of_string (string_of_int (n + 1)) = Some (n + 1)
          \<and> clock c' = clock c \<and> socket_open c'"
    by blast
  from this [OF counted_pool_counter(1) counted_pool_counter(2) _ _ counted_pool_counter(3)]
  show ?thesis
    by (auto simp add: counted_pool_counter(4) string_of_int_def string_of_nat.simps)
qed

section \<open>Shutdown\<close>

lemma disconnect_skipped:
  "client p = None \<or> \<not> isConnected p \<Longrightarrow> disconnect lib p = (Inr (), p)"
  by (auto simp: disconnect_def)

lemma disconnect_graceful:
  assumes "isConnected p" and "client p = Some c" and "cmd_quit lib c = (Inr (), c')"
  shows "disconnect lib p = (Inr (), p\<lparr>client := Some c'\<rparr>)"
  using assms by (simp add: disconnect_def client_call_def)

lemma disconnect_forced:
  assumes "isConnected p" and "client p = Some c" and "cmd_quit lib c = (Inl e, c1)"
    and "cmd_disconnect lib c1 = (r, c2)"
  shows "disconnect lib p = (r, p\<lparr>client := Some c2\<rparr>)"
  using assms by (simp add: disconnect_def client_call_def)

lemma sim_quit_closes: "sim_quit c = (Inr (), c') \<Longrightarrow> \<not> socket_open c'"
  by (auto simp: sim_quit_def sim_command_def split: if_splits list.splits)

lemma sim_disconnect_closes: "sim_disconnect c = (Inr (), c') \<Longrightarrow> \<not> socket_open c'"
  by (auto simp: sim_disconnect_def sim_command_def split: if_splits list.splits)

text \<open>
  C9, as the code has it. \<open>disconnect\<close> does nothing and returns when there is no client or
  \<open>isConnected\<close> is false. With a client and \<open>isConnected\<close> true, and with any client
  library, it first attempts the graceful \<open>quit\<close>: when the quit succeeds the call returns
  without an exception and the client is the one the quit left; when the quit throws it
  falls back to the forced \<open>disconnect\<close>, and when that succeeds the call returns without an
  exception and the client is the one the forced disconnect left. On the in-memory Redis
  a quit or a forced disconnect that succeeds closes the socket, so in both cases the
  transport is released.
\<close>

theorem disconnect_releases_when_connected:
  "(client p = None \<or> \<not> isConnected p \<longrightarrow> disconnect lib p = (Inr (), p))
   \<and> (\<forall>c c'. isConnected p \<and> client p = Some c \<and> cmd_quit lib c = (Inr (), c') \<longrightarrow>
          disconnect lib p = (Inr (), p\<lparr>client := Some c'\<rparr>))
   \<and> (\<forall>c e c1 c2. isConnected p \<and> client p = Some c \<and> cmd_quit lib c = (Inl e, c1) \<and>
          cmd_disconnect lib c1 = (Inr (), c2) \<longrightarrow>
          disconnect lib p = (Inr (), p\<lparr>client := Some c2\<rparr>))
   \<and> (\<forall>c c'. cmd_quit sim_lib c = (Inr (), c') \<longrightarrow> \<not> socket_open c')
   \<and> (\<forall>c c'. cmd_disconnect sim_lib c = (Inr (), c') \<longrightarrow> \<not> socket_open c')
   \<and> (\<forall>c c'. isConnected q \<and> client q = Some c \<and> cmd_quit sim_lib c = (Inr (), c') \<longrightarrow>
          disconnect sim_lib q = (Inr (), q\<lparr>client := Some c'\<rparr>) \<and> \<not> socket_open c')
   \<and> (\<forall>c e c1 c2. isConnected q \<and> client q = Some c \<and> cmd_quit sim_lib c = (Inl e, c1) \<and>
          cmd_disconnect sim_lib c1 = (Inr (), c2) \<longrightarrow>
          disconnect sim_lib q = (Inr (), q\<lparr>client := Some c2\<rparr>) \<and> \<not> socket_open c2)"
proof (intro conjI allI impI)
  assume "client p = None \<or> \<not> isConnected p"
  then show "disconnect lib p = (Inr (), p)" by (rule disconnect_skipped)
next
  fix c c'
  assume "isConnected p \<and> client p = Some c \<and> cmd_quit lib c = (Inr (), c')"
  then show "disconnect lib p = (Inr (), p\<lparr>client := Some c'\<rparr>)"
    by (simp add: disconnect_graceful)
next
  fix c e c1 c2
  assume "isConnected p \<and> client p = Some c \<and> cmd_quit lib c = (Inl e, c1) \<and>
          cmd_disconnect lib c1 = (Inr (), c2)"
  then show "disconnect lib p = (Inr (), p\<lparr>client := Some c2\<rparr>)"
    by (simp add: disconnect_forced)
next
  fix c c'
  assume "cmd_quit sim_lib c = (Inr (), c')"
  then show "\<not> socket_open c'"
    by (auto simp: sim_lib_def dest: sim_quit_closes)
next
  fix c c'
  assume "cmd_disconnect sim_lib c = (Inr (), c')"
  then show "\<not> socket_open c'"
    by (auto simp: sim_lib_def dest: sim_disconnect_closes)
next
  fix c c'
  assume a: "isConnected q \<and> client q = Some c \<and> cmd_quit sim_lib c = (Inr (), c')"
  then show "disconnect sim_lib q = (Inr (), q\<lparr>client := Some c'\<rparr>)"
    by (simp add: disconnect_graceful)
  from a show "\<not> socket_open c'"
    by (auto simp: sim_lib_def dest: sim_quit_closes)
next
  fix c e c1 c2
  assume a: "isConnected q \<and> client q = Some c \<and> cmd_quit sim_lib c = (Inl e, c1) \<and>
             cmd_disconnect sim_lib c1 = (Inr (), c2)"
  then show "disconnect sim_lib q = (Inr (), q\<lparr>client := Some c2\<rparr>)"
    by (simp add: disconnect_forced)
  from a show "\<not> socket_open c2"
    by (auto simp: sim_lib_def dest: sim_disconnect_closes)
qed

lemma example_quit:
  "cmd_quit sim_lib (example_client []) = (Inr (), (example_client [])\<lparr>socket_open := False\<rparr>)"
  "cmd_quit sim_lib (example_client [True]) = (Inl (JsError ''Connection lost''), example_client [])"
  "cmd_disconnect sim_lib (example_client []) = (Inr (), (example_client [])\<lparr>socket_open := False\<rparr>)"
  by (simp_all add: sim_lib_def sim_quit_def sim_disconnect_def sim_command_def example_client_def)

lemma example_stuck_quit:
  "cmd_quit stuck_quit_lib (example_client []) = (Inl (JsError ''Socket timeout''), example_client [])"
  "cmd_disconnect stuck_quit_lib (example_client []) =
     (Inr (), (example_client [])\<lparr>socket_open := False\<rparr>)"
  by (simp_all add: stuck_quit_lib_def sim_lib_def sim_disconnect_def sim_command_def
      example_client_def)

lemma example_pool_fields:
  "isConnected (example_pool flag fs) = flag"
  "client (example_pool flag fs) = Some (example_client fs)"
  by (simp_all add: example_pool_def)

theorem disconnect_releases_when_connected_witness:
  "disconnect sim_lib (example_pool True []) =
     (Inr (), (example_pool True [])\<lparr>client := Some ((example_client [])\<lparr>socket_open := False\<rparr>)\<rparr>)
   \<and> disconnect sim_lib (example_pool True [True]) =
     (Inr (), (example_pool True [True])\<lparr>client := Some ((example_client [])\<lparr>socket_open := False\<rparr>)\<rparr>)
   \<and> disconnect stuck_quit_lib (example_pool True []) =
     (Inr (), (example_pool True [])\<lparr>client := Some ((example_client [])\<lparr>socket_open := False\<rparr>)\<rparr>)
   \<and> \<not> socket_open ((example_client [])\<lparr>socket_open := False\<rparr>)
   \<and> disconnect sim_lib (example_pool False []) = (Inr (), example_pool False [])"
proof -
  note t1 = disconnect_releases_when_connected [of "example_pool True []" sim_lib "example_pool True []"]
  note t2 = disconnect_releases_when_connected [of "example_pool True [True]" sim_lib "example_pool True []"]
  note t3 = disconnect_releases_when_connected [of "example_pool True []" stuck_quit_lib "example_pool True []"]
  note t4 = disconnect_releases_when_connected [of "example_pool False []" sim_lib "example_pool True []"]
  from t4 have skipped: "disconnect sim_lib (example_pool False []) = (Inr (), example_pool False [])"
    by (simp add: example_pool_fields)
  from t1 have
    "\<And>c c'. isConnected (example_pool True []) \<Longrightarrow> client (example_pool True []) = Some c \<Longrightarrow>
       cmd_quit sim_lib c = (Inr (), c') \<Longrightarrow>
       disconnect sim_lib (example_pool True []) = (Inr (), (example_pool True [])\<lparr>client := Some c'\<rparr>)"
    by blast
  from this [OF _ _ example_quit(1)] have graceful:
    "disconnect sim_lib (example_pool True []) =
       (Inr (), (example_pool True [])\<lparr>client := Some ((example_client [])\<lparr>socket_open := False\<rparr>)\<rparr>)"
    by (simp add: example_pool_fields)
  from t2 have
    "\<And>c e c1 c2. isConnected (example_pool True [True]) \<Longrightarrow>
       client (example_pool True [True]) = Some c \<Longrightarrow>
       cmd_quit sim_lib c = (Inl e, c1) \<Longrightarrow> cmd_disconnect sim_lib c1 = (Inr (), c2) \<Longrightarrow>
       disconnect sim_lib (example_pool True [True]) =
         (Inr (), (example_pool True [True])\<lparr>client := Some c2\<rparr>)"
    by blast
  from this [OF _ _ example_quit(2) example_quit(3)] have forced:
    "disconnect sim_lib (example_pool True [True]) =
       (Inr (), (example_pool True [True])\<lparr>client := Some ((example_client [])\<lparr>socket_open := False\<rparr>)\<rparr>)"
    by (simp add: example_pool_fields)
  from t3 have
    "\<And>c e c1 c2. isConnected (example_pool True []) \<Longrightarrow>
       client (example_pool True []) = Some c \<Longrightarrow>
       cmd_quit stuck_quit_lib c = (Inl e, c1) \<Longrightarrow> cmd_disconnect stuck_quit_lib c1 = (Inr (), c2) \<Longrightarrow>
       disconnect stuck_quit_lib (example_pool True []) =
         (Inr (), (example_pool True [])\<lparr>client := Some c2\<rparr>)"
    by blast
  from this [OF _ _ example_stuck_quit(1) example_stuck_quit(2)] have stuck:
    "disconnect stuck_quit_lib (example_pool True []) =
       (Inr (), (example_pool True [])\<lparr>client := Some ((example_client [])\<lparr>socket_open := False\<rparr>)\<rparr>)"
    by (simp add: example_pool_fields)
  from t1 have "\<And>c c'. cmd_disconnect sim_lib c = (Inr (), c') \<Longrightarrow> \<not> socket_open c'"
    by blast
  from this [OF example_quit(3)] have closed:
    "\<not> socket_open ((example_client [])\<lparr>socket_open := False\<rparr>)" .
  from graceful forced stuck closed skipped show ?thesis by simp
qed

text \<open>
  C9 as stated fails twice. With a client whose socket is open and \<open>isConnected\<close> false,
  \<open>disconnect\<close> returns and the socket is still open. With \<open>isConnected\<close> true, a quit that
  throws and a forced disconnect that throws too, the second error leaves \<open>disconnect\<close>.
\<close>

theorem disconnect_counterexample:
  "client (example_pool False []) = Some (example_client [])
   \<and> socket_open (example_client [])
   \<and> disconnect sim_lib (example_pool False []) = (Inr (), example_pool False [])
   \<and> client (example_pool True [True, True]) \<noteq> None
   \<and> fst (disconnect sim_lib (example_pool True [True, True])) = Inl (JsError ''Connection lost'')"
  by (simp add: example_pool_def example_client_def new_RedisConnectionPool_def disconnect_def
      client_call_def sim_lib_def sim_quit_def sim_disconnect_def sim_command_def)

section \<open>Sessions and the response cache\<close>

lemma sim_set_ok:
  assumes "socket_open c" and "faults c = []" and "0 < t"
  shows "sim_set k v (Some t) c =
           (Inr (), c\<lparr>db := AList.update k \<lparr>val = v, expire_at = Some (clock c + t)\<rparr> (db c)\<rparr>)"
  using assms by (simp add: sim_set_def sim_command_ok)

lemma set_stores:
  assumes "isConnected p" and "client p = Some c" and "socket_open c" and "faults c = []"
    and "0 < t"
  shows "\<exists>c'. set' sim_lib p k v (Some t) = (Inr True, p\<lparr>client := Some c'\<rparr>)
            \<and> live c' k = Some \<lparr>val = v, expire_at = Some (clock c + t)\<rparr>
            \<and> ttl c' k = Some t"
proof -
  let ?c' = "c\<lparr>db := AList.update k \<lparr>val = v, expire_at = Some (clock c + t)\<rparr> (db c)\<rparr>"
  have "set' sim_lib p k v (Some t) = (Inr True, p\<lparr>client := Some ?c'\<rparr>)"
    using assms sim_set_ok [of c t k v] by (simp add: set'_def client_call_def sim_lib_def)
  moreover have l: "live ?c' k = Some \<lparr>val = v, expire_at = Some (clock c + t)\<rparr>"
    using assms(5) by (simp add: live_def update_conv')
  moreover have "ttl ?c' k = Some t"
    using l by (simp add: ttl_def)
  ultimately show ?thesis by blast
qed

text \<open>
  C10. Omitting the TTL argument is the same as passing 3600 to \<open>setSession\<close> and 300 to
  \<open>setCachedData\<close>, with any runtime, client library and pool. On the in-memory Redis, with
  the pool connected and the serialisation and the store succeeding, the entry is then
  stored under \<open>session:<id>\<close> with 3600 seconds to live and under \<open>cache:<key>\<close> with 300.
\<close>

theorem default_ttls:
  "setSession rt lib p sessionId sessionData None = setSession rt lib p sessionId sessionData (Some 3600)
   \<and> setCachedData rt lib p key data None = setCachedData rt lib p key data (Some 300)
   \<and> (\<forall>c str. isConnected q \<and> client q = Some c \<and> socket_open c \<and> faults c = [] \<and>
         JSON_stringify rt sessionData = Inr str \<longrightarrow>
         (\<exists>c'. setSession rt sim_lib q sessionId sessionData None = (Inr True, q\<lparr>client := Some c'\<rparr>)
              \<and> live c' (''session:'' @ sessionId) =
                  Some \<lparr>val = str, expire_at = Some (clock c + 3600)\<rparr>
              \<and> ttl c' (''session:'' @ sessionId) = Some 3600))
   \<and> (\<forall>c str. isConnected q \<and> client q = Some c \<and> socket_open c \<and> faults c = [] \<and>
         JSON_stringify rt data = Inr str \<longrightarrow>
         (\<exists>c'. setCachedData rt sim_lib q key data None = (Inr True, q\<lparr>client := Some c'\<rparr>)
              \<and> live c' (''cache:'' @ key) = Some \<lparr>val = str, expire_at = Some (clock c + 300)\<rparr>
              \<and> ttl c' (''cache:'' @ key) = Some 300))"
proof (intro conjI allI impI)
  show "setSession rt lib p sessionId sessionData None = setSession rt lib p sessionId sessionData (Some 3600)"
    by (simp add: setSession_def split: sum.splits)
  show "setCachedData rt lib p key data None = setCachedData rt lib p key data (Some 300)"
    by (simp add: setCachedData_def split: sum.splits)
next
  fix c str
  assume "isConnected q \<and> client q = Some c \<and> socket_open c \<and> faults c = [] \<and>
          JSON_stringify rt sessionData = Inr str"
  then show "\<exists>c'. setSession rt sim_lib q sessionId sessionData None = (Inr True, q\<lparr>client := Some c'\<rparr>)
              \<and> live c' (''session:'' @ sessionId) =
                  Some \<lparr>val = str, expire_at = Some (clock c + 3600)\<rparr>
              \<and> ttl c' (''session:'' @ sessionId) = Some 3600"
    using set_stores [of q c 3600 "''session:'' @ sessionId" str]
    by (simp add: setSession_def)
next
  fix c str
  assume "isConnected q \<and> client q = Some c \<and> socket_open c \<and> faults c = [] \<and>
          JSON_stringify rt data = Inr str"
  then show "\<exists>c'. setCachedData rt sim_lib q key data None = (Inr True, q\<lparr>client := Some c'\<rparr>)
              \<and> live c' (''cache:'' @ key) = Some \<lparr>val = str, expire_at = Some (clock c + 300)\<rparr>
              \<and> ttl c' (''cache:'' @ key) = Some 300"
    using set_stores [of q c 300 "''cache:'' @ key" str]
    by (simp add: setCachedData_def)
qed

lemma example_stringify:
  "JSON_stringify json_rt (JObj [(''userId'', JNum 42)]) = Inr (''{'' @ [CHR 0x22] @ ''userId'' @ [CHR 0x22] @ '':42}'')"
  by (simp add: json_rt_def json_stringify_def quote_def escape_char_def escapes_def join.simps
      string_of_int_def string_of_nat.simps)

lemma example_stringify_null: "JSON_stringify json_rt JNull = Inr ''null''"
  by (simp add: json_rt_def json_stringify_def)

theorem default_ttls_witness:
  "(\<exists>c'. setSession json_rt sim_lib (example_pool True []) ''abc'' (JObj [(''userId'', JNum 42)]) None =
          (Inr True, (example_pool True [])\<lparr>client := Some c'\<rparr>)
       \<and> ttl c' ''session:abc'' = Some 3600)
   \<and> (\<exists>c'. setCachedData json_rt sim_lib (example_pool True []) ''k'' JNull None =
          (Inr True, (example_pool True [])\<lparr>client := Some c'\<rparr>)
       \<and> ttl c' ''cache:k'' = Some 300)"
proof -
  have ex: "isConnected (example_pool True []) \<and> client (example_pool True []) = Some (example_client []) \<and>
        socket_open (example_client []) \<and> faults (example_client []) = []"
    by (simp add: example_pool_def example_client_def)
  note t = default_ttls [of json_rt sim_lib "example_pool True []" "''abc''" "JObj [(''userId'', JNum 42)]"
      "''k''" JNull "example_pool True []"]
  from t ex example_stringify have
    "\<exists>c'. setSession json_rt sim_lib (example_pool True []) ''abc'' (JObj [(''userId'', JNum 42)]) None =
          (Inr True, (example_pool True [])\<lparr>client := Some c'\<rparr>)
       \<and> ttl c' ''session:abc'' = Some 3600"
    by (metis append_Cons append_Nil)
  moreover from t ex example_stringify_null have
    "\<exists>c'. setCachedData json_rt sim_lib (example_pool True []) ''k'' JNull None =
          (Inr True, (example_pool True [])\<lparr>client := Some c'\<rparr>)
       \<and> ttl c' ''cache:k'' = Some 300"
    by (metis append_Cons append_Nil)
  ultimately show ?thesis by blast
qed

text \<open>
  Which of the derived services can throw. The only exceptions that leave them are those
  of \<open>JSON.parse\<close> in the two getters and of \<open>JSON.stringify\<close> in the two setters.
\<close>

lemma getSession_result:
  "fst (getSession rt lib p sessionId) =
     (case fst (get lib p (''session:'' @ sessionId)) of
        Inr (Some sessionData) \<Rightarrow> if sessionData \<noteq> [] then JSON_parse rt sessionData else Inr JNull
      | _ \<Rightarrow> Inr JNull)"
  using get_no_throw [of lib p "''session:'' @ sessionId"]
  by (cases "get lib p (''session:'' @ sessionId)")
     (auto simp: getSession_def split: sum.splits option.splits)

lemma getCachedData_result:
  "fst (getCachedData rt lib p key) =
     (case fst (get lib p (''cache:'' @ key)) of
        Inr (Some cachedData) \<Rightarrow> if cachedData \<noteq> [] then JSON_parse rt cachedData else Inr JNull
      | _ \<Rightarrow> Inr JNull)"
  using get_no_throw [of lib p "''cache:'' @ key"]
  by (cases "get lib p (''cache:'' @ key)")
     (auto simp: getCachedData_def split: sum.splits option.splits)

lemma setSession_result:
  "fst (setSession rt lib p sessionId sessionData ttlSeconds) =
     (case JSON_stringify rt sessionData of
        Inl e \<Rightarrow> Inl e
      | Inr serialized \<Rightarrow>
          fst (set' lib p (''session:'' @ sessionId) serialized
                 (Some (case ttlSeconds of None \<Rightarrow> 3600 | Some t \<Rightarrow> t))))"
  by (simp add: setSession_def split: sum.splits)

lemma setCachedData_result:
  "fst (setCachedData rt lib p key data ttlSeconds) =
     (case JSON_stringify rt data of
        Inl e \<Rightarrow> Inl e
      | Inr serialized \<Rightarrow>
          fst (set' lib p (''cache:'' @ key) serialized
                 (Some (case ttlSeconds of None \<Rightarrow> 300 | Some t \<Rightarrow> t))))"
  by (simp add: setCachedData_def split: sum.splits)

lemma deleteSession_no_throw: "\<exists>r. fst (deleteSession lib p sessionId) = Inr r"
  using del_no_throw [of lib p "''session:'' @ sessionId"] by (simp add: deleteSession_def)

lemma invalidateCache_no_throw: "\<exists>r. fst (invalidateCache lib p pattern) = Inr r"
proof (cases "isConnected p")
  case False
  then have "fst (invalidateCache lib p pattern) = Inr False" by (simp add: invalidateCache_def)
  then show ?thesis by blast
next
  case True
  obtain r1 p1 where k: "client_call (cmd_keys lib (''cache:'' @ pattern)) p = (r1, p1)"
    by (cases "client_call (cmd_keys lib (''cache:'' @ pattern)) p")
  show ?thesis
  proof (cases r1)
    case (Inl e)
    with True k have "fst (invalidateCache lib p pattern) = Inr False"
      by (simp add: invalidateCache_def)
    then show ?thesis by blast
  next
    case (Inr keys)
    obtain r2 p2 where d: "client_call (cmd_del lib keys) p1 = (r2, p2)"
      by (cases "client_call (cmd_del lib keys) p1")
    with True k Inr show ?thesis
      by (cases r2) (auto simp: invalidateCache_def)
  qed
qed

lemma getSession_propagates:
  assumes "isConnected p"
    and "client_call (cmd_get lib (''session:'' @ sessionId)) p = (Inr (Some text), p')"
    and "text \<noteq> []" and "JSON_parse rt text = Inl e"
  shows "getSession rt lib p sessionId = (Inl e, p')"
  using assms by (simp add: getSession_def get_def)

lemma getCachedData_propagates:
  assumes "isConnected p"
    and "client_call (cmd_get lib (''cache:'' @ key)) p = (Inr (Some text), p')"
    and "text \<noteq> []" and "JSON_parse rt text = Inl e"
  shows "getCachedData rt lib p key = (Inl e, p')"
  using assms by (simp add: getCachedData_def get_def)

lemma not_json: "json_parse ''not json'' = Inl (JsSyntaxError ''Unexpected token in JSON'')"
  by (simp add: json_parse_def next_char_def parse_literal_def skip_ws_def is_ws_def)

lemma open_brace: "json_parse ''{'' = Inl (JsSyntaxError ''Unexpected token in JSON'')"
  by (simp add: json_parse_def next_char_def closes_def parse_key_def skip_ws_def is_ws_def)

text \<open>
  C3 at a failing input. On a connected pool with an empty store, \<open>set\<close> writes the text
  \<open>not json\<close> under \<open>session:abc\<close> and returns \<open>true\<close>; \<open>get\<close> then returns that text, and
  the SyntaxError of \<open>JSON.parse\<close> leaves \<open>getSession\<close>. The same happens to
  \<open>getCachedData\<close> with \<open>{\<close> under \<open>cache:abc\<close>.
\<close>

theorem getSession_throws_on_invalid_json:
  "fst (set' sim_lib (example_pool True []) ''session:abc'' ''not json'' None) = Inr True
   \<and> fst (get sim_lib (snd (set' sim_lib (example_pool True []) ''session:abc'' ''not json'' None))
           ''session:abc'') = Inr (Some ''not json'')
   \<and> fst (getSession json_rt sim_lib
           (snd (set' sim_lib (example_pool True []) ''session:abc'' ''not json'' None)) ''abc'') =
       Inl (JsSyntaxError ''Unexpected token in JSON'')
   \<and> fst (getCachedData json_rt sim_lib
           (snd (set' sim_lib (example_pool True []) ''cache:abc'' ''{'' None)) ''abc'') =
       Inl (JsSyntaxError ''Unexpected token in JSON'')"
  by (simp add: getSession_def getCachedData_def get_def set'_def example_pool_def example_client_def
      new_RedisConnectionPool_def client_call_def sim_lib_def sim_get_def sim_set_def
      sim_command_def live_def json_rt_def not_json open_brace)

section \<open>Health reduction and the liveness result\<close>

lemma determineOverallStatus_unhealthy:
  "JStr ''unhealthy'' \<in> set statuses \<Longrightarrow> determineOverallStatus statuses = JStr ''unhealthy''"
  by (simp add: determineOverallStatus_def)

lemma determineOverallStatus_healthy:
  "JStr ''unhealthy'' \<notin> set statuses \<Longrightarrow> list_all (\<lambda>s. s = JStr ''healthy'') statuses \<Longrightarrow>
   determineOverallStatus statuses = JStr ''healthy''"
  by (simp add: determineOverallStatus_def)

lemma determineOverallStatus_degraded:
  "JStr ''unhealthy'' \<notin> set statuses \<Longrightarrow> \<not> list_all (\<lambda>s. s = JStr ''healthy'') statuses \<Longrightarrow>
   determineOverallStatus statuses = JStr ''degraded''"
  by (simp add: determineOverallStatus_def)

lemma determineOverallStatus_range:
  "determineOverallStatus statuses \<in> {JStr ''healthy'', JStr ''degraded'', JStr ''unhealthy''}"
  by (simp add: determineOverallStatus_def)

lemma overallStatus_eq:
  assumes "get_prop dbHealth ''status'' = Inr d" and "get_prop redisHealth ''status'' = Inr r"
    and "get_prop memoryHealth ''status'' = Inr m"
  shows "overallStatus dbHealth redisHealth memoryHealth =
           Inr (determineOverallStatus
                 [d, if r = JStr ''not_configured'' then JStr ''healthy'' else r, m])"
  using assms by (simp add: overallStatus_def)

text \<open>
  C5. For the three probe results of \<open>performHealthCheck\<close> with statuses \<open>d\<close> (database),
  \<open>r\<close> (cache) and \<open>m\<close> (memory), where \<open>not_configured\<close> of the cache counts as
  \<open>healthy\<close>: if one of the three is \<open>unhealthy\<close> the overall status is \<open>unhealthy\<close>;
  else if all three are \<open>healthy\<close> it is \<open>healthy\<close>; otherwise it is \<open>degraded\<close>. In
  particular \<open>[healthy, healthy, healthy]\<close> gives \<open>healthy\<close>,
  \<open>[healthy, unhealthy, healthy]\<close> gives \<open>unhealthy\<close>, and the probes
  \<open>[healthy, not_configured, healthy]\<close> give \<open>healthy\<close>.
\<close>

theorem health_reduction:
  "(\<forall>d r m. get_prop dbHealth ''status'' = Inr d \<and> get_prop redisHealth ''status'' = Inr r \<and>
       get_prop memoryHealth ''status'' = Inr m \<longrightarrow>
       (JStr ''unhealthy'' \<in> {d, if r = JStr ''not_configured'' then JStr ''healthy'' else r, m} \<longrightarrow>
          overallStatus dbHealth redisHealth memoryHealth = Inr (JStr ''unhealthy''))
     \<and> (JStr ''unhealthy'' \<notin> {d, if r = JStr ''not_configured'' then JStr ''healthy'' else r, m} \<and>
          d = JStr ''healthy'' \<and> (r = JStr ''healthy'' \<or> r = JStr ''not_configured'') \<and>
          m = JStr ''healthy'' \<longrightarrow>
          overallStatus dbHealth redisHealth memoryHealth = Inr (JStr ''healthy''))
     \<and> (JStr ''unhealthy'' \<notin> {d, if r = JStr ''not_configured'' then JStr ''healthy'' else r, m} \<and>
          \<not> (d = JStr ''healthy'' \<and> (r = JStr ''healthy'' \<or> r = JStr ''not_configured'') \<and>
             m = JStr ''healthy'') \<longrightarrow>
          overallStatus dbHealth redisHealth memoryHealth = Inr (JStr ''degraded'')))
   \<and> determineOverallStatus [JStr ''healthy'', JStr ''healthy'', JStr ''healthy''] = JStr ''healthy''
   \<and> determineOverallStatus [JStr ''healthy'', JStr ''unhealthy'', JStr ''healthy''] = JStr ''unhealthy''
   \<and> overallStatus (JObj [(''status'', JStr ''healthy'')]) (JObj [(''status'', JStr ''not_configured'')])
        (JObj [(''status'', JStr ''healthy'')]) = Inr (JStr ''healthy'')"
proof (intro conjI allI impI)
  fix d r m
  assume st: "get_prop dbHealth ''status'' = Inr d \<and> get_prop redisHealth ''status'' = Inr r \<and>
       get_prop memoryHealth ''status'' = Inr m"
  let ?c = "if r = JStr ''not_configured'' then JStr ''healthy'' else r"
  from st have eq: "overallStatus dbHealth redisHealth memoryHealth =
      Inr (determineOverallStatus [d, ?c, m])"
    by (simp add: overallStatus_eq)
  {
    assume "JStr ''unhealthy'' \<in> {d, ?c, m}"
    then have "JStr ''unhealthy'' \<in> set [d, ?c, m]" by simp
    from determineOverallStatus_unhealthy [OF this]
    show "overallStatus dbHealth redisHealth memoryHealth = Inr (JStr ''unhealthy'')"
      by (simp only: eq)
  next
    assume a: "JStr ''unhealthy'' \<notin> {d, ?c, m} \<and>
          d = JStr ''healthy'' \<and> (r = JStr ''healthy'' \<or> r = JStr ''not_configured'') \<and>
          m = JStr ''healthy''"
    then have "JStr ''unhealthy'' \<notin> set [d, ?c, m]"
      and "list_all (\<lambda>s. s = JStr ''healthy'') [d, ?c, m]" by auto
    from determineOverallStatus_healthy [OF this]
    show "overallStatus dbHealth redisHealth memoryHealth = Inr (JStr ''healthy'')"
      by (simp only: eq)
  next
    assume a: "JStr ''unhealthy'' \<notin> {d, ?c, m} \<and>
          \<not> (d = JStr ''healthy'' \<and> (r = JStr ''healthy'' \<or> r = JStr ''not_configured'') \<and>
             m = JStr ''healthy'')"
    then have "JStr ''unhealthy'' \<notin> set [d, ?c, m]"
      and "\<not> list_all (\<lambda>s. s = JStr ''healthy'') [d, ?c, m]" by (auto split: if_splits)
    from determineOverallStatus_degraded [OF this]
    show "overallStatus dbHealth redisHealth memoryHealth = Inr (JStr ''degraded'')"
      by (simp only: eq)
  }
qed (simp_all add: determineOverallStatus_def overallStatus_def)

theorem health_reduction_witness:
  "overallStatus (JObj [(''status'', JStr ''healthy'')]) (JObj [(''status'', JStr ''unhealthy'')])
     (JObj [(''status'', JStr ''healthy'')]) = Inr (JStr ''unhealthy'')
   \<and> overallStatus (JObj [(''status'', JStr ''healthy'')]) (JObj [(''status'', JStr ''not_configured'')])
     (JObj [(''status'', JStr ''healthy'')]) = Inr (JStr ''healthy'')
   \<and> overallStatus (JObj [(''status'', JStr ''healthy'')]) (JObj [(''status'', JStr ''starting'')])
     (JObj [(''status'', JStr ''healthy'')]) = Inr (JStr ''degraded'')"
proof -
  note t = health_reduction [of "JObj [(''status'', JStr ''healthy'')]" _ "JObj [(''status'', JStr ''healthy'')]"]
  have g: "get_prop (JObj [(''status'', JStr s)]) ''status'' = Inr (JStr s)" for s by simp
  from t [of "JObj [(''status'', JStr ''unhealthy'')]"] g [of "''healthy''"] g [of "''unhealthy''"]
  have 1: "overallStatus (JObj [(''status'', JStr ''healthy'')]) (JObj [(''status'', JStr ''unhealthy'')])
     (JObj [(''status'', JStr ''healthy'')]) = Inr (JStr ''unhealthy'')"
    by simp
  from t [of "JObj [(''status'', JStr ''not_configured'')]"]
  have 2: "overallStatus (JObj [(''status'', JStr ''healthy'')]) (JObj [(''status'', JStr ''not_configured'')])
     (JObj [(''status'', JStr ''healthy'')]) = Inr (JStr ''healthy'')"
    by blast
  from t [of "JObj [(''status'', JStr ''starting'')]"] g [of "''healthy''"] g [of "''starting''"]
  have 3: "overallStatus (JObj [(''status'', JStr ''healthy'')]) (JObj [(''status'', JStr ''starting'')])
     (JObj [(''status'', JStr ''healthy'')]) = Inr (JStr ''degraded'')"
    by simp
  from 1 2 3 show ?thesis by simp
qed

lemma checkDatabase_shape:
  "\<exists>s fs. checkDatabase (Some pg) t = Inr (JObj ((''status'', JStr s) # fs))
          \<and> (s = ''healthy'' \<or> s = ''unhealthy'')"
  by (auto simp: checkDatabase_def pool_query_def pool_details_def split: sum.splits)

lemma checkDatabase_null:
  "checkDatabase None t = Inl (JsTypeError ''Cannot read properties of null'')"
  by (simp add: checkDatabase_def pool_query_def pool_details_def)

lemma healthCheck_shape:
  "\<exists>s fs. fst (healthCheck lib p t) = Inr (JObj ((''status'', JStr s) # fs))
          \<and> (s = ''healthy'' \<or> s = ''unhealthy'')"
  by (cases "client_call (cmd_ping lib) p") (auto simp: healthCheck_def split: sum.splits)

lemma checkRedis_shape:
  "\<exists>s fs. fst (checkRedis lib hc t) = Inr (JObj ((''status'', JStr s) # fs))
          \<and> (s = ''not_configured'' \<or> s = ''healthy'' \<or> s = ''unhealthy'')"
proof (cases "redisPool hc")
  case None
  then show ?thesis by (simp add: checkRedis_def)
next
  case (Some p)
  obtain r p' where h: "healthCheck lib p t = (r, p')" by (cases "healthCheck lib p t")
  with healthCheck_shape [of lib p t] Some show ?thesis
    by (auto simp: checkRedis_def)
qed

lemma checkMemory_shape:
  "\<exists>s fs. checkMemory env = Inr (JObj ((''status'', JStr s) # fs))
          \<and> (s = ''healthy'' \<or> s = ''unhealthy'')"
  by (simp add: checkMemory_def Let_def)

lemma overallStatus_shape:
  "\<exists>s. overallStatus (JObj ((''status'', JStr a) # fa)) (JObj ((''status'', JStr b) # fb))
          (JObj ((''status'', JStr c) # fc)) = Inr (JStr s)
       \<and> (s = ''healthy'' \<or> s = ''degraded'' \<or> s = ''unhealthy'')"
  by (simp add: overallStatus_def determineOverallStatus_def)

lemma performHealthCheck_try_shape:
  assumes "pool hc = Some pg"
  shows "\<exists>status uptime responseTime version environment database redis memory.
     fst (performHealthCheck_try lib hc env) =
       Inr (JObj [(''status'', JStr status), (''timestamp'', JStr (isoString env)),
                  (''uptime'', uptime), (''responseTime'', responseTime),
                  (''version'', version), (''environment'', environment),
                  (''checks'', JObj [(''database'', database), (''redis'', redis),
                                     (''memory'', memory)])])
     \<and> (status = ''healthy'' \<or> status = ''degraded'' \<or> status = ''unhealthy'')"
proof -
  obtain a fa where db: "checkDatabase (pool hc) (db_elapsed env) = Inr (JObj ((''status'', JStr a) # fa))"
    using checkDatabase_shape [of pg "db_elapsed env"] assms by auto
  obtain r hc' where rd: "checkRedis lib hc (redis_elapsed env) = (r, hc')"
    by (cases "checkRedis lib hc (redis_elapsed env)")
  with checkRedis_shape [of lib hc "redis_elapsed env"]
  obtain b fb where rd': "r = Inr (JObj ((''status'', JStr b) # fb))" by auto
  obtain c fc where mem: "checkMemory env = Inr (JObj ((''status'', JStr c) # fc))"
    using checkMemory_shape by blast
  obtain s where st: "overallStatus (JObj ((''status'', JStr a) # fa)) (JObj ((''status'', JStr b) # fb))
          (JObj ((''status'', JStr c) # fc)) = Inr (JStr s)"
    and range: "s = ''healthy'' \<or> s = ''degraded'' \<or> s = ''unhealthy''"
    using overallStatus_shape by blast
  from db rd rd' mem st have
    "fst (performHealthCheck_try lib hc env) =
       Inr (JObj [(''status'', JStr s), (''timestamp'', JStr (isoString env)),
                  (''uptime'', getUptime hc' (now env + total_elapsed env)),
                  (''responseTime'', JNum (of_int (total_elapsed env))),
                  (''version'', JStr (env_or (npm_package_version env) ''1.0.0'')),
                  (''environment'', JStr (env_or (NODE_ENV env) ''development'')),
                  (''checks'', JObj [(''database'', JObj ((''status'', JStr a) # fa)),
                                     (''redis'', JObj ((''status'', JStr b) # fb)),
                                     (''memory'', JObj ((''status'', JStr c) # fc))])])"
    by (simp add: performHealthCheck_try_def)
  with range show ?thesis by blast
qed

lemma performHealthCheck_with_pool:
  assumes "pool hc = Some pg"
  shows "\<exists>status uptime responseTime version environment database redis memory.
     fst (performHealthCheck lib hc env) =
       Inr (JObj [(''status'', JStr status), (''timestamp'', JStr (isoString env)),
                  (''uptime'', uptime), (''responseTime'', responseTime),
                  (''version'', version), (''environment'', environment),
                  (''checks'', JObj [(''database'', database), (''redis'', redis),
                                     (''memory'', memory)])])
     \<and> (status = ''healthy'' \<or> status = ''degraded'' \<or> status = ''unhealthy'')"
proof -
  obtain r hc' where t: "performHealthCheck_try lib hc env = (r, hc')"
    by (cases "performHealthCheck_try lib hc env")
  with performHealthCheck_try_shape [OF assms, of lib env] obtain v where "r = Inr v" by auto
  with t have "fst (performHealthCheck lib hc env) = fst (performHealthCheck_try lib hc env)"
    by (simp add: performHealthCheck_def)
  with performHealthCheck_try_shape [OF assms, of lib env] show ?thesis by simp
qed

lemma performHealthCheck_null_pool:
  assumes "pool hc = None"
  shows "\<exists>uptime.
     fst (performHealthCheck lib hc env) =
       Inr (JObj [(''status'', JStr ''unhealthy''), (''timestamp'', JStr (isoString env)),
                  (''uptime'', uptime),
                  (''responseTime'', JNum (of_int (total_elapsed env))),
                  (''error'', JStr ''Cannot read properties of null''),
                  (''version'', JStr (env_or (npm_package_version env) ''1.0.0'')),
                  (''environment'', JStr (env_or (NODE_ENV env) ''development''))])"
proof -
  obtain r hc' where rd: "checkRedis lib hc (redis_elapsed env) = (r, hc')"
    by (cases "checkRedis lib hc (redis_elapsed env)")
  with assms have "performHealthCheck_try lib hc env =
      (Inl (JsTypeError ''Cannot read properties of null''), hc')"
    by (simp add: performHealthCheck_try_def checkDatabase_null)
  then have "fst (performHealthCheck lib hc env) =
       Inr (JObj [(''status'', JStr ''unhealthy''), (''timestamp'', JStr (isoString env)),
                  (''uptime'', getUptime hc' (now env + total_elapsed env)),
                  (''responseTime'', JNum (of_int (total_elapsed env))),
                  (''error'', JStr ''Cannot read properties of null''),
                  (''version'', JStr (env_or (npm_package_version env) ''1.0.0'')),
                  (''environment'', JStr (env_or (NODE_ENV env) ''development''))])"
    by (simp add: performHealthCheck_def)
  then show ?thesis by blast
qed

text \<open>
  C8, as the code has it. \<open>performHealthCheck\<close> has two results. When the checker holds
  a database pool, the result is the object with the fields \<open>status\<close>, \<open>timestamp\<close>,
  \<open>uptime\<close>, \<open>responseTime\<close>, \<open>version\<close>, \<open>environment\<close> and \<open>checks\<close>, in this order;
  \<open>status\<close> is one of \<open>healthy\<close>, \<open>degraded\<close>, \<open>unhealthy\<close>, and the keys of \<open>checks\<close> are
  \<open>database\<close>, \<open>redis\<close> and \<open>memory\<close>. When the pool is \<open>null\<close> the database probe throws
  from its own \<open>catch\<close> block, and the result is the object of the \<open>catch\<close> branch:
  \<open>status\<close> is \<open>unhealthy\<close>, then \<open>timestamp\<close>, \<open>uptime\<close>, \<open>responseTime\<close>, the message of
  the error under \<open>error\<close>, \<open>version\<close> and \<open>environment\<close>, and there is no \<open>checks\<close>.
\<close>

theorem liveness_result_fields:
  "(\<forall>pg. pool hc = Some pg \<longrightarrow>
      (\<exists>status uptime responseTime version environment database redis memory.
         fst (performHealthCheck lib hc env) =
           Inr (JObj [(''status'', JStr status), (''timestamp'', JStr (isoString env)),
                      (''uptime'', uptime), (''responseTime'', responseTime),
                      (''version'', version), (''environment'', environment),
                      (''checks'', JObj [(''database'', database), (''redis'', redis),
                                         (''memory'', memory)])])
         \<and> (status = ''healthy'' \<or> status = ''degraded'' \<or> status = ''unhealthy'')))
   \<and> (pool hc = None \<longrightarrow>
      (\<exists>uptime.
         fst (performHealthCheck lib hc env) =
           Inr (JObj [(''status'', JStr ''unhealthy''), (''timestamp'', JStr (isoString env)),
                      (''uptime'', uptime),
                      (''responseTime'', JNum (of_int (total_elapsed env))),
                      (''error'', JStr ''Cannot read properties of null''),
                      (''version'', JStr (env_or (npm_package_version env) ''1.0.0'')),
                      (''environment'', JStr (env_or (NODE_ENV env) ''development''))])))"
proof (intro conjI allI impI)
  fix pg
  assume "pool hc = Some pg"
  then show "\<exists>status uptime responseTime version environment database redis memory.
         fst (performHealthCheck lib hc env) =
           Inr (JObj [(''status'', JStr status), (''timestamp'', JStr (isoString env)),
                      (''uptime'', uptime), (''responseTime'', responseTime),
                      (''version'', version), (''environment'', environment),
                      (''checks'', JObj [(''database'', database), (''redis'', redis),
                                         (''memory'', memory)])])
         \<and> (status = ''healthy'' \<or> status = ''degraded'' \<or> status = ''unhealthy'')"
    by (rule performHealthCheck_with_pool)
next
  assume "pool hc = None"
  then show "\<exists>uptime.
         fst (performHealthCheck lib hc env) =
           Inr (JObj [(''status'', JStr ''unhealthy''), (''timestamp'', JStr (isoString env)),
                      (''uptime'', uptime),
                      (''responseTime'', JNum (of_int (total_elapsed env))),
                      (''error'', JStr ''Cannot read properties of null''),
                      (''version'', JStr (env_or (npm_package_version env) ''1.0.0'')),
                      (''environment'', JStr (env_or (NODE_ENV env) ''development''))])"
    by (rule performHealthCheck_null_pool)
qed

lemma example_checker_pool:
  "\<exists>pg. pool example_checker = Some pg"
  "pool (example_checker\<lparr>pool := None\<rparr>) = None"
  by (simp_all add: example_checker_def)

theorem liveness_result_fields_witness:
  "result_keys (fst (performHealthCheck sim_lib example_checker example_env)) =
     [''status'', ''timestamp'', ''uptime'', ''responseTime'', ''version'', ''environment'', ''checks'']
   \<and> checks_keys (fst (performHealthCheck sim_lib example_checker example_env)) =
     [''database'', ''redis'', ''memory'']
   \<and> result_keys (fst (performHealthCheck sim_lib (example_checker\<lparr>pool := None\<rparr>) example_env)) =
     [''status'', ''timestamp'', ''uptime'', ''responseTime'', ''error'', ''version'', ''environment'']"
proof -
  from example_checker_pool(1) obtain pg where pg: "pool example_checker = Some pg" by blast
  from liveness_result_fields [of example_checker sim_lib example_env] pg
  have a: "result_keys (fst (performHealthCheck sim_lib example_checker example_env)) =
     [''status'', ''timestamp'', ''uptime'', ''responseTime'', ''version'', ''environment'', ''checks'']
   \<and> checks_keys (fst (performHealthCheck sim_lib example_checker example_env)) =
     [''database'', ''redis'', ''memory'']"
    by (auto simp: result_keys_def checks_keys_def)
  from liveness_result_fields [of "example_checker\<lparr>pool := None\<rparr>" sim_lib example_env]
    example_checker_pool(2)
  have b: "result_keys (fst (performHealthCheck sim_lib (example_checker\<lparr>pool := None\<rparr>) example_env)) =
     [''status'', ''timestamp'', ''uptime'', ''responseTime'', ''error'', ''version'', ''environment'']"
    by (auto simp: result_keys_def)
  from a b show ?thesis by simp
qed

text \<open>
  C8 as stated fails: in the liveness result of the example the keys of \<open>checks\<close> are
  \<open>database\<close>, \<open>redis\<close>, \<open>memory\<close>, none is named \<open>cache\<close> or \<open>store\<close>, and the result has
  the fields \<open>version\<close> and \<open>environment\<close> besides the five the claim lists. With the pool
  \<open>null\<close> the result has no \<open>checks\<close> at all.
\<close>

theorem liveness_result_counterexample:
  "checks_keys (fst (performHealthCheck sim_lib example_checker example_env)) =
     [''database'', ''redis'', ''memory'']
   \<and> ''cache'' \<notin> set (checks_keys (fst (performHealthCheck sim_lib example_checker example_env)))
   \<and> ''store'' \<notin> set (checks_keys (fst (performHealthCheck sim_lib example_checker example_env)))
   \<and> ''version'' \<in> set (result_keys (fst (performHealthCheck sim_lib example_checker example_env)))
   \<and> ''environment'' \<in> set (result_keys (fst (performHealthCheck sim_lib example_checker example_env)))
   \<and> ''checks'' \<notin> set (result_keys
        (fst (performHealthCheck sim_lib (example_checker\<lparr>pool := None\<rparr>) example_env)))"
proof -
  from example_checker_pool(1) obtain pg where pg: "pool example_checker = Some pg" by blast
  from performHealthCheck_with_pool [OF pg, of sim_lib example_env]
  have a: "checks_keys (fst (performHealthCheck sim_lib example_checker example_env)) =
     [''database'', ''redis'', ''memory'']
   \<and> ''version'' \<in> set (result_keys (fst (performHealthCheck sim_lib example_checker example_env)))
   \<and> ''environment'' \<in> set (result_keys (fst (performHealthCheck sim_lib example_checker example_env)))"
    by (auto simp: result_keys_def checks_keys_def)
  from performHealthCheck_null_pool [OF example_checker_pool(2), of sim_lib example_env]
  have b: "''checks'' \<notin> set (result_keys
        (fst (performHealthCheck sim_lib (example_checker\<lparr>pool := None\<rparr>) example_env)))"
    by (auto simp: result_keys_def)
  from a b show ?thesis by simp
qed

end
